theory Spec2Isabelle
  imports Complex_Main
begin

section \<open>Shopfloor simulator: parts, buffers, runtime configuration, base machine\<close>

text \<open>
  Conventions of the embedding.

  \<^item> \<open>time.Time\<close> and \<open>time.Duration\<close> are integers (nanoseconds); the 64-bit range of
    the Go types is not modelled.
  \<^item> Every reading of the wall clock (\<open>time.Now()\<close>, \<open>time.Since\<close>) made during one call
    is the explicit argument \<open>clock\<close>; the argument \<open>now\<close> is the tick instant the driver
    passes in.
  \<^item> Finite \<open>float64\<close> values are rationals; rounding, infinities and NaN are outside the
    model. \<open>time.Duration(x)\<close> of a float truncates towards zero.
  \<^item> A Go pointer is an \<open>option\<close>: \<open>None\<close> is \<open>nil\<close>. The zero \<open>time.Time\<close> is 0.
\<close>

type_synonym time = int
type_synonym duration = int
type_synonym 'a ptr = "'a option"

definition to_Duration :: "rat \<Rightarrow> duration" where
  "to_Duration x = (if 0 \<le> x then \<lfloor>x\<rfloor> else \<lceil>x\<rceil>)"

subsection \<open>core: machine states, orders, parts\<close>

datatype MachineState =
  StateIdle | StateSetup | StateRunning | StatePlannedStop | StateUnplannedStop

datatype OrderStatus =
  OrderStatusQueued | OrderStatusInProgress | OrderStatusCompleted | OrderStatusCancelled

record ProductionOrder =
  OrderID :: string
  PartNumber :: string
  Quantity :: int
  QuantityCompleted :: int
  QuantityScrap :: int
  Status :: OrderStatus
  StartedAt :: time

datatype PartStatus =
  PartStatusInForming | PartStatusAwaitingPickup | PartStatusInTransit
  | PartStatusAwaitingWelding | PartStatusBeingWelded | PartStatusComplete | PartStatusScrap

record Part =
  ID :: string
  PartOrderID :: string
  PStatus :: PartStatus
  Location :: string
  CreatedAt :: time
  FormingComplete :: time
  PickingComplete :: time
  WeldingComplete :: time
  FormingMachineID :: string
  PickerRobotID :: string
  SpotWelderID :: string
  IsScrap :: bool
  ScrapReason :: string

subsection \<open>core: PartBuffer\<close>

text \<open>
  The queue holds part pointers. \<open>make([]*Part, 0, capacity)\<close> panics on a negative
  capacity, so \<open>NewPartBuffer\<close> yields no buffer there.
\<close>

record 'a PartBuffer =
  MaxCapacity :: int
  Queue :: "'a ptr list"

definition NewPartBuffer :: "int \<Rightarrow> 'a PartBuffer option" where
  "NewPartBuffer capacity =
     (if capacity < 0 then None else Some \<lparr>MaxCapacity = capacity, Queue = []\<rparr>)"

definition Push :: "'a ptr \<Rightarrow> 'a PartBuffer \<Rightarrow> bool \<times> 'a PartBuffer" where
  "Push part pb =
     (if int (length (Queue pb)) \<ge> MaxCapacity pb then (False, pb)
      else (True, pb\<lparr>Queue := Queue pb @ [part]\<rparr>))"

definition Pop :: "'a PartBuffer \<Rightarrow> 'a ptr \<times> 'a PartBuffer" where
  "Pop pb =
     (if length (Queue pb) = 0 then (None, pb)
      else (hd (Queue pb), pb\<lparr>Queue := tl (Queue pb)\<rparr>))"

definition Peek :: "'a PartBuffer \<Rightarrow> 'a ptr" where
  "Peek pb = (if length (Queue pb) = 0 then None else hd (Queue pb))"

definition Count :: "'a PartBuffer \<Rightarrow> int" where
  "Count pb = int (length (Queue pb))"

definition IsFull :: "'a PartBuffer \<Rightarrow> bool" where
  "IsFull pb \<longleftrightarrow> int (length (Queue pb)) \<ge> MaxCapacity pb"

definition IsEmpty :: "'a PartBuffer \<Rightarrow> bool" where
  "IsEmpty pb \<longleftrightarrow> length (Queue pb) = 0"

text \<open>A client of the buffer: any sequence of calls, with what each call returned.\<close>

datatype 'a buf_call = CallPush "'a ptr" | CallPop | CallPeek

datatype 'a buf_ret = RetPush bool | RetPop "'a ptr" | RetPeek "'a ptr"

fun do_call :: "'a buf_call \<Rightarrow> 'a PartBuffer \<Rightarrow> 'a buf_ret \<times> 'a PartBuffer" where
  "do_call (CallPush p) pb = (case Push p pb of (ok, pb') \<Rightarrow> (RetPush ok, pb'))"
| "do_call CallPop pb = (case Pop pb of (p, pb') \<Rightarrow> (RetPop p, pb'))"
| "do_call CallPeek pb = (RetPeek (Peek pb), pb)"

fun run_calls :: "'a buf_call list \<Rightarrow> 'a PartBuffer \<Rightarrow> ('a buf_call \<times> 'a buf_ret) list \<times> 'a PartBuffer" where
  "run_calls [] pb = ([], pb)"
| "run_calls (c # cs) pb =
     (case do_call c pb of (r, pb') \<Rightarrow>
        (case run_calls cs pb' of (tr, pb'') \<Rightarrow> ((c, r) # tr, pb'')))"

text \<open>The parts whose push was accepted, and the parts handed out by pop, in call order.\<close>

fun accepted :: "('a buf_call \<times> 'a buf_ret) list \<Rightarrow> 'a ptr list" where
  "accepted [] = []"
| "accepted ((CallPush p, RetPush True) # tr) = p # accepted tr"
| "accepted (_ # tr) = accepted tr"

fun handed_out :: "('a buf_call \<times> 'a buf_ret) list \<Rightarrow> 'a ptr list" where
  "handed_out [] = []"
| "handed_out ((CallPop, RetPop (Some p)) # tr) = Some p # handed_out tr"
| "handed_out (_ # tr) = handed_out tr"

subsection \<open>config: RuntimeConfig\<close>

record Config =
  SimulatorName :: string
  PublishInterval_cfg :: duration
  CycleTime_cfg :: duration
  SetupTime_cfg :: duration
  ScrapRate_cfg :: rat
  ErrorRate_cfg :: rat

record RuntimeConfig =
  cycleTimeScale :: rat
  scrapRate :: rat
  errorRate :: rat
  baseCycleTime :: duration
  baseSetupTime :: duration

definition NewRuntimeConfig :: "Config \<Rightarrow> RuntimeConfig" where
  "NewRuntimeConfig cfg =
     \<lparr>cycleTimeScale = 1, scrapRate = ScrapRate_cfg cfg, errorRate = ErrorRate_cfg cfg,
      baseCycleTime = CycleTime_cfg cfg, baseSetupTime = SetupTime_cfg cfg\<rparr>"


definition GetBaseCycleTime :: "RuntimeConfig \<Rightarrow> duration" where
  "GetBaseCycleTime rc = baseCycleTime rc"

definition RC_GetEffectiveCycleTime :: "RuntimeConfig \<Rightarrow> duration" where
  "RC_GetEffectiveCycleTime rc = to_Duration (of_int (baseCycleTime rc) / cycleTimeScale rc)"

definition RC_GetEffectiveSetupTime :: "RuntimeConfig \<Rightarrow> duration" where
  "RC_GetEffectiveSetupTime rc = to_Duration (of_int (baseSetupTime rc) / cycleTimeScale rc)"

definition RC_GetEffectiveErrorDuration :: "RuntimeConfig \<Rightarrow> duration \<Rightarrow> duration" where
  "RC_GetEffectiveErrorDuration rc baseDuration =
     to_Duration (of_int baseDuration / cycleTimeScale rc)"

definition GetScrapRate :: "RuntimeConfig \<Rightarrow> rat" where
  "GetScrapRate rc = scrapRate rc"

definition GetErrorRate :: "RuntimeConfig \<Rightarrow> rat" where
  "GetErrorRate rc = errorRate rc"







subsection \<open>api: POST /api/config\<close>





subsection \<open>core: MachineConfig and BaseMachine\<close>

text \<open>
  \<open>MachineConfig.Runtime\<close> points to the one \<open>RuntimeConfig\<close> object of the process, shared
  with the HTTP handler. The pointer is kept in the configuration; the current content of
  the object is the argument \<open>rt\<close> of every function that reads through it.
\<close>

datatype RuntimeConfig_ref = TheRuntimeConfig

record MachineConfig =
  Name_mc :: string
  CycleTime :: duration
  SetupTime :: duration
  ScrapRate :: rat
  ErrorRate :: rat
  PublishInterval :: duration
  Runtime :: "RuntimeConfig_ref ptr"

definition GetEffectiveCycleTime :: "RuntimeConfig \<Rightarrow> MachineConfig \<Rightarrow> duration" where
  "GetEffectiveCycleTime rt mc =
     (if Runtime mc \<noteq> None then RC_GetEffectiveCycleTime rt else CycleTime mc)"

definition GetEffectiveSetupTime :: "RuntimeConfig \<Rightarrow> MachineConfig \<Rightarrow> duration" where
  "GetEffectiveSetupTime rt mc =
     (if Runtime mc \<noteq> None then RC_GetEffectiveSetupTime rt else SetupTime mc)"

definition GetEffectiveScrapRate :: "RuntimeConfig \<Rightarrow> MachineConfig \<Rightarrow> rat" where
  "GetEffectiveScrapRate rt mc =
     (if Runtime mc \<noteq> None then GetScrapRate rt else ScrapRate mc)"

definition GetEffectiveErrorRate :: "RuntimeConfig \<Rightarrow> MachineConfig \<Rightarrow> rat" where
  "GetEffectiveErrorRate rt mc =
     (if Runtime mc \<noteq> None then GetErrorRate rt else ErrorRate mc)"

definition GetEffectiveErrorDuration :: "RuntimeConfig \<Rightarrow> MachineConfig \<Rightarrow> duration \<Rightarrow> duration" where
  "GetEffectiveErrorDuration rt mc baseDuration =
     (if Runtime mc \<noteq> None then RC_GetEffectiveErrorDuration rt baseDuration else baseDuration)"

record ErrorInfo =
  Code :: string
  Message :: string
  OccurredAt :: time
  ExpectedEnd :: time

text \<open>
  A callback is a Go function value, \<open>nil\<close> or registered. The model keeps whether each
  one is registered and appends every invocation, with its arguments, to the trace
  \<open>fired\<close> of the machine.
\<close>

record MachineCallbacks =
  OnStateChange :: bool
  OnCycleComplete :: bool
  OnOrderComplete :: bool
  OnError :: bool
  OnPartProduced :: bool

datatype callback_event =
  StateChangeFired MachineState MachineState
  | CycleCompleteFired bool
  | OrderCompleteFired ProductionOrder
  | ErrorFired ErrorInfo

text \<open>
  Orders are reached through pointers; during an update the owning machine is their only
  writer, so the machine carries its orders by value. \<open>AddOrder\<close> is given an order
  (the coordinator's \<open>SetOrder\<close> guards against \<open>nil\<close>). \<open>CurrentShift\<close> is read by none of
  the functions below and is left out.
\<close>

record BaseMachine =
  config :: MachineConfig
  callbacks :: MachineCallbacks
  state :: MachineState
  StateEnteredAt :: time
  CycleStartedAt :: time
  CurrentOrder :: "ProductionOrder ptr"
  OrderQueue :: "ProductionOrder list"
  GoodParts :: int
  ScrapParts :: int
  CurrentError :: "ErrorInfo ptr"
  fired :: "callback_event list"

definition no_callbacks :: MachineCallbacks where
  "no_callbacks = \<lparr>OnStateChange = False, OnCycleComplete = False, OnOrderComplete = False,
                    OnError = False, OnPartProduced = False\<rparr>"

definition NewBaseMachine :: "time \<Rightarrow> MachineConfig \<Rightarrow> BaseMachine" where
  "NewBaseMachine clock cfg =
     \<lparr>config = cfg, callbacks = no_callbacks, state = StateIdle, StateEnteredAt = clock,
      CycleStartedAt = 0, CurrentOrder = None, OrderQueue = [], GoodParts = 0, ScrapParts = 0,
      CurrentError = None, fired = []\<rparr>"

definition SetCallbacks :: "MachineCallbacks \<Rightarrow> BaseMachine \<Rightarrow> BaseMachine" where
  "SetCallbacks cb bm = bm\<lparr>callbacks := cb\<rparr>"

definition TransitionTo :: "time \<Rightarrow> MachineState \<Rightarrow> BaseMachine \<Rightarrow> BaseMachine" where
  "TransitionTo clock newState bm =
     (if state bm = newState then bm
      else
        (let oldState = state bm;
             bm1 = bm\<lparr>state := newState, StateEnteredAt := clock\<rparr>
         in if OnStateChange (callbacks bm1)
            then bm1\<lparr>fired := fired bm1 @ [StateChangeFired oldState newState]\<rparr>
            else bm1))"

definition AddOrder :: "ProductionOrder \<Rightarrow> BaseMachine \<Rightarrow> BaseMachine" where
  "AddOrder order bm = bm\<lparr>OrderQueue := OrderQueue bm @ [order]\<rparr>"

definition GetCounters :: "BaseMachine \<Rightarrow> int \<times> int" where
  "GetCounters bm = (GoodParts bm, ScrapParts bm)"

definition ResetCounters :: "BaseMachine \<Rightarrow> BaseMachine" where
  "ResetCounters bm = bm\<lparr>GoodParts := 0, ScrapParts := 0\<rparr>"

definition TriggerError :: "time \<Rightarrow> string \<Rightarrow> string \<Rightarrow> duration \<Rightarrow> BaseMachine \<Rightarrow> BaseMachine" where
  "TriggerError clock code message dur bm =
     (let err = \<lparr>Code = code, Message = message, OccurredAt = clock, ExpectedEnd = clock + dur\<rparr>;
          bm1 = TransitionTo clock StateUnplannedStop (bm\<lparr>CurrentError := Some err\<rparr>)
      in if OnError (callbacks bm1) then bm1\<lparr>fired := fired bm1 @ [ErrorFired err]\<rparr> else bm1)"

definition ClearError :: "BaseMachine \<Rightarrow> BaseMachine" where
  "ClearError bm = bm\<lparr>CurrentError := None\<rparr>"

definition HasError :: "BaseMachine \<Rightarrow> bool" where
  "HasError bm \<longleftrightarrow> CurrentError bm \<noteq> None"

definition IsErrorResolved :: "time \<Rightarrow> BaseMachine \<Rightarrow> bool" where
  "IsErrorResolved now bm =
     (case CurrentError bm of None \<Rightarrow> False | Some err \<Rightarrow> now > ExpectedEnd err)"

definition StartNextOrder :: "time \<Rightarrow> BaseMachine \<Rightarrow> bool \<times> BaseMachine" where
  "StartNextOrder now bm =
     (case OrderQueue bm of
        [] \<Rightarrow> (False, bm)
      | order # rest \<Rightarrow>
          (True, bm\<lparr>CurrentOrder := Some (order\<lparr>Status := OrderStatusInProgress, StartedAt := now\<rparr>),
                    OrderQueue := rest\<rparr>))"

definition CompleteCycle :: "bool \<Rightarrow> BaseMachine \<Rightarrow> BaseMachine" where
  "CompleteCycle isScrap bm =
     (let bm1 =
        (if isScrap
         then bm\<lparr>ScrapParts := ScrapParts bm + 1,
                 CurrentOrder := map_option (\<lambda>order. order\<lparr>QuantityScrap := QuantityScrap order + 1\<rparr>)
                                   (CurrentOrder bm)\<rparr>
         else bm\<lparr>GoodParts := GoodParts bm + 1,
                 CurrentOrder := map_option (\<lambda>order. order\<lparr>QuantityCompleted := QuantityCompleted order + 1\<rparr>)
                                   (CurrentOrder bm)\<rparr>)
      in if OnCycleComplete (callbacks bm1)
         then bm1\<lparr>fired := fired bm1 @ [CycleCompleteFired isScrap]\<rparr>
         else bm1)"

definition IsOrderComplete :: "BaseMachine \<Rightarrow> bool" where
  "IsOrderComplete bm =
     (case CurrentOrder bm of
        None \<Rightarrow> False
      | Some order \<Rightarrow> QuantityCompleted order + QuantityScrap order \<ge> Quantity order)"

definition FinishOrder :: "BaseMachine \<Rightarrow> BaseMachine" where
  "FinishOrder bm =
     (case CurrentOrder bm of
        None \<Rightarrow> bm
      | Some order \<Rightarrow>
          (let done = order\<lparr>Status := OrderStatusCompleted\<rparr>;
               bm1 = (if OnOrderComplete (callbacks bm)
                      then bm\<lparr>fired := fired bm @ [OrderCompleteFired done]\<rparr> else bm)
           in bm1\<lparr>CurrentOrder := None\<rparr>))"

definition ElapsedInState :: "time \<Rightarrow> BaseMachine \<Rightarrow> duration" where
  "ElapsedInState clock bm = clock - StateEnteredAt bm"

definition ElapsedInCycle :: "time \<Rightarrow> BaseMachine \<Rightarrow> duration" where
  "ElapsedInCycle clock bm = clock - CycleStartedAt bm"

text \<open>Well-formed buffer: within capacity, holding parts only.\<close>

definition buf_ok :: "'a PartBuffer \<Rightarrow> bool" where
  "buf_ok pb \<longleftrightarrow> 0 \<le> MaxCapacity pb \<and> int (length (Queue pb)) \<le> MaxCapacity pb \<and> None \<notin> set (Queue pb)"

subsection \<open>Fixtures for the closed instances\<close>

definition fixture_callbacks :: MachineCallbacks where
  "fixture_callbacks = no_callbacks\<lparr>OnStateChange := True\<rparr>"

definition fixture_machine_config :: MachineConfig where
  "fixture_machine_config =
     \<lparr>Name_mc = [], CycleTime = 10000000000, SetupTime = 5000000000, ScrapRate = 0,
      ErrorRate = 0, PublishInterval = 1000000000, Runtime = None\<rparr>"


subsection \<open>core: NoiseGenerator, as far as the engines branch on it\<close>

text \<open>
  What the outside world hands to one \<open>Update\<close> of one machine: the wall clock, the
  calendar date \<open>now.Format("2006-01-02")\<close> of the tick instant, and the numbers the
  machine's random generator returns to each kind of draw made during the call
  (\<open>rng.Float64()\<close> lies in \<open>[0, 1)\<close>, \<open>rng.Intn\<close> below its bound).
\<close>

record tick_env =
  wallclock :: time
  nowDate :: string
  errU :: rat
  errPick :: nat
  durU :: rat
  scrapU :: rat

definition Bool_noise :: "rat \<Rightarrow> rat \<Rightarrow> bool" where
  "Bool_noise u probability \<longleftrightarrow> u < probability"

definition ShouldTrigger :: "rat \<Rightarrow> rat \<Rightarrow> duration \<Rightarrow> duration \<Rightarrow> bool" where
  "ShouldTrigger u probabilityPerCycle tickDuration cycleDuration \<longleftrightarrow>
     u < probabilityPerCycle * of_int tickDuration / of_int cycleDuration"

definition Uniform :: "rat \<Rightarrow> rat \<Rightarrow> rat \<Rightarrow> rat" where
  "Uniform u lo hi = lo + u * (hi - lo)"

definition UniformInt :: "nat \<Rightarrow> nat \<Rightarrow> nat \<Rightarrow> nat" where
  "UniformInt k lo hi = lo + k mod (hi - lo + 1)"

subsection \<open>The buffers of the line, by address\<close>

text \<open>
  Buffers are shared between machines through pointers, so they live in a store and the
  machines hold addresses. Parts are owned by one holder at a time (a buffer, the picker's
  gripper, the welder's fixture) and are carried by value.
\<close>

type_synonym addr = nat

record store =
  cells :: "addr \<Rightarrow> Part PartBuffer"
  next_free :: addr

definition empty_store :: store where
  "empty_store = \<lparr>cells = (\<lambda>_. \<lparr>MaxCapacity = 0, Queue = []\<rparr>), next_free = 0\<rparr>"

definition alloc_PartBuffer :: "int \<Rightarrow> store \<Rightarrow> (addr \<times> store) option" where
  "alloc_PartBuffer capacity st =
     (case NewPartBuffer capacity of
        None \<Rightarrow> None
      | Some pb \<Rightarrow>
          Some (next_free st,
                st\<lparr>cells := (cells st)(next_free st := pb), next_free := Suc (next_free st)\<rparr>))"

definition Push_at :: "addr \<Rightarrow> Part ptr \<Rightarrow> store \<Rightarrow> bool \<times> store" where
  "Push_at a part st =
     (case Push part (cells st a) of (ok, pb) \<Rightarrow> (ok, st\<lparr>cells := (cells st)(a := pb)\<rparr>))"

definition Pop_at :: "addr \<Rightarrow> store \<Rightarrow> Part ptr \<times> store" where
  "Pop_at a st =
     (case Pop (cells st a) of (part, pb) \<Rightarrow> (part, st\<lparr>cells := (cells st)(a := pb)\<rparr>))"

subsection \<open>forming: the forming machine\<close>

datatype FormingPhase =
  FormingPhaseIdle | FormingPhaseLoad | FormingPhaseForm | FormingPhaseHold
  | FormingPhaseEject | FormingPhaseRaise

datatype FormingErrorCode =
  F_ErrorSheetMisfeed | F_ErrorHydraulicFault | F_ErrorOverpressure | F_ErrorRamStuck
  | F_ErrorQualityReject | F_ErrorTemperatureFault

fun F_code :: "FormingErrorCode \<Rightarrow> string" where
  "F_code F_ErrorSheetMisfeed = ''F001''"
| "F_code F_ErrorHydraulicFault = ''F002''"
| "F_code F_ErrorOverpressure = ''F003''"
| "F_code F_ErrorRamStuck = ''F004''"
| "F_code F_ErrorQualityReject = ''F005''"
| "F_code F_ErrorTemperatureFault = ''F006''"

definition second :: duration where "second = 1000000000"
definition minute :: duration where "minute = 60 * second"

fun F_GetErrorInfo :: "FormingErrorCode \<Rightarrow> string \<times> duration \<times> duration" where
  "F_GetErrorInfo F_ErrorSheetMisfeed = (''Sheet metal misfeed detected'', 30 * second, 1 * minute)"
| "F_GetErrorInfo F_ErrorHydraulicFault = (''Hydraulic system fault'', 1 * minute, 3 * minute)"
| "F_GetErrorInfo F_ErrorOverpressure = (''Overpressure detected'', 45 * second, 2 * minute)"
| "F_GetErrorInfo F_ErrorRamStuck = (''Ram stuck in position'', 2 * minute, 5 * minute)"
| "F_GetErrorInfo F_ErrorQualityReject = (''Quality reject - forming defect'', 15 * second, 45 * second)"
| "F_GetErrorInfo F_ErrorTemperatureFault = (''Temperature out of range'', 1 * minute, 2 * minute)"

definition F_AllErrorCodes :: "FormingErrorCode list" where
  "F_AllErrorCodes =
     [F_ErrorSheetMisfeed, F_ErrorHydraulicFault, F_ErrorOverpressure, F_ErrorRamStuck,
      F_ErrorQualityReject, F_ErrorTemperatureFault]"

text \<open>
  The process parameters of the configuration and the ram position feed the published
  timeseries only; no branch reads them, and they are left out. The debug prints of
  \<open>updateIdle\<close> are left out as well.
\<close>

record FormingConfig =
  LoadFraction_f :: rat
  FormFraction_f :: rat
  HoldFraction_f :: rat
  EjectFraction_f :: rat
  RaiseFraction_f :: rat
  OutputBufferCapacity :: int

definition DefaultFormingConfig :: FormingConfig where
  "DefaultFormingConfig =
     \<lparr>LoadFraction_f = 10 / 100, FormFraction_f = 40 / 100, HoldFraction_f = 15 / 100,
      EjectFraction_f = 15 / 100, RaiseFraction_f = 20 / 100, OutputBufferCapacity = 5\<rparr>"

record FormingState =
  Phase_f :: FormingPhase
  PhaseStartedAt_f :: time
  CycleCount_f :: int
  OutputBuffer :: addr
  CurrentPartID_f :: string

record FormingMachine =
  base_f :: BaseMachine
  formConfig :: FormingConfig
  formState :: FormingState
  name_f :: string
  partCounter :: int

definition NewFormingMachine ::
  "time \<Rightarrow> string \<Rightarrow> MachineConfig \<Rightarrow> FormingConfig \<Rightarrow> store \<Rightarrow> (FormingMachine \<times> store) option" where
  "NewFormingMachine clock name cfg formCfg st =
     (case alloc_PartBuffer (OutputBufferCapacity formCfg) st of
        None \<Rightarrow> None
      | Some (a, st1) \<Rightarrow>
          Some (\<lparr>base_f = NewBaseMachine clock cfg, formConfig = formCfg,
                 formState = \<lparr>Phase_f = FormingPhaseIdle, PhaseStartedAt_f = 0, CycleCount_f = 0,
                              OutputBuffer = a, CurrentPartID_f = []\<rparr>,
                 name_f = name, partCounter = 0\<rparr>, st1))"

definition F_Start :: "FormingMachine \<Rightarrow> FormingMachine" where
  "F_Start fm = fm\<lparr>formState := (formState fm)\<lparr>Phase_f := FormingPhaseIdle, CycleCount_f := 0\<rparr>\<rparr>"

definition F_SetPhase :: "time \<Rightarrow> FormingPhase \<Rightarrow> FormingMachine \<Rightarrow> FormingMachine" where
  "F_SetPhase clock phase fm =
     fm\<lparr>formState := (formState fm)\<lparr>Phase_f := phase, PhaseStartedAt_f := clock\<rparr>\<rparr>"

definition GetOutputBuffer :: "FormingMachine \<Rightarrow> addr" where
  "GetOutputBuffer fm = OutputBuffer (formState fm)"

text \<open>\<open>fmt.Sprintf("%04d", n)\<close> for the part counter, which is positive when it is printed.\<close>

definition digit_char :: "nat \<Rightarrow> char" where
  "digit_char d = ''0123456789'' ! (d mod 10)"

fun decimal :: "nat \<Rightarrow> string" where
  "decimal n = (if n < 10 then [digit_char n] else decimal (n div 10) @ [digit_char n])"

declare decimal.simps [simp del]

definition fmt_04d :: "int \<Rightarrow> string" where
  "fmt_04d n =
     (let ds = decimal (nat n)
      in replicate (4 - length ds) CHR ''0'' @ ds)"

definition F_generatePartID :: "tick_env \<Rightarrow> FormingMachine \<Rightarrow> FormingMachine" where
  "F_generatePartID env fm =
     (let n = partCounter fm + 1
      in fm\<lparr>partCounter := n,
             formState := (formState fm)\<lparr>CurrentPartID_f := ''PART-'' @ nowDate env @ ''-'' @ fmt_04d n\<rparr>\<rparr>)"

definition F_updateIdle :: "tick_env \<Rightarrow> time \<Rightarrow> FormingMachine \<Rightarrow> FormingMachine" where
  "F_updateIdle env now fm =
     (let fm1 = fm\<lparr>formState := (formState fm)\<lparr>Phase_f := FormingPhaseIdle\<rparr>\<rparr>
      in if CurrentOrder (base_f fm1) \<noteq> None \<or> length (OrderQueue (base_f fm1)) > 0
         then
           (let fm2 = (if CurrentOrder (base_f fm1) = None
                       then fm1\<lparr>base_f := snd (StartNextOrder now (base_f fm1))\<rparr>
                       else fm1)
            in fm2\<lparr>base_f := TransitionTo (wallclock env) StateSetup (base_f fm2)\<rparr>)
         else fm1)"

definition F_updateSetup :: "tick_env \<Rightarrow> duration \<Rightarrow> time \<Rightarrow> FormingMachine \<Rightarrow> FormingMachine" where
  "F_updateSetup env elapsed now fm =
     (if elapsed \<ge> SetupTime (config (base_f fm))
      then
        (let fm1 = fm\<lparr>base_f := (TransitionTo (wallclock env) StateRunning (base_f fm))\<lparr>CycleStartedAt := now\<rparr>\<rparr>
         in F_generatePartID env (F_SetPhase (wallclock env) FormingPhaseLoad fm1))
      else fm)"

definition F_shouldTriggerError :: "tick_env \<Rightarrow> FormingMachine \<Rightarrow> bool" where
  "F_shouldTriggerError env fm =
     (if Phase_f (formState fm) \<noteq> FormingPhaseForm \<and> Phase_f (formState fm) \<noteq> FormingPhaseHold
      then False
      else ShouldTrigger (errU env) (ErrorRate (config (base_f fm)))
             (PublishInterval (config (base_f fm))) (CycleTime (config (base_f fm))))"

definition F_triggerError :: "tick_env \<Rightarrow> time \<Rightarrow> FormingMachine \<Rightarrow> FormingMachine" where
  "F_triggerError env now fm =
     (let errors = F_AllErrorCodes;
          errorCode = errors ! UniformInt (errPick env) 0 (length errors - 1)
      in case F_GetErrorInfo errorCode of (message, minDur, maxDur) \<Rightarrow>
        (let dur = to_Duration (Uniform (durU env) (of_int minDur) (of_int maxDur));
             fm1 = fm\<lparr>base_f := TriggerError (wallclock env) (F_code errorCode) message dur (base_f fm)\<rparr>
         in fm1\<lparr>formState := (formState fm1)\<lparr>Phase_f := FormingPhaseIdle\<rparr>\<rparr>))"

definition F_new_part :: "time \<Rightarrow> FormingMachine \<Rightarrow> Part" where
  "F_new_part now fm =
     \<lparr>ID = CurrentPartID_f (formState fm),
      PartOrderID = (case CurrentOrder (base_f fm) of None \<Rightarrow> [] | Some order \<Rightarrow> OrderID order),
      PStatus = PartStatusAwaitingPickup, Location = name_f fm,
      CreatedAt = now, FormingComplete = now, PickingComplete = 0,
      WeldingComplete = 0, FormingMachineID = name_f fm, PickerRobotID = [],
      SpotWelderID = [], IsScrap = False, ScrapReason = []\<rparr>"

definition F_ejectPart :: "tick_env \<Rightarrow> time \<Rightarrow> FormingMachine \<times> store \<Rightarrow> FormingMachine \<times> store" where
  "F_ejectPart env now fs =
     (case fs of (fm, st) \<Rightarrow>
       (let bm = base_f fm in
        if Bool_noise (scrapU env) (ScrapRate (config bm))
        then
          (let bm1 = bm\<lparr>ScrapParts := ScrapParts bm + 1,
                        CurrentOrder := map_option (\<lambda>order. order\<lparr>QuantityScrap := QuantityScrap order + 1\<rparr>)
                                          (CurrentOrder bm)\<rparr>
           in (fm\<lparr>base_f := CompleteCycle True bm1\<rparr>, st))
        else
          (case Push_at (OutputBuffer (formState fm)) (Some (F_new_part now fm)) st of
             (False, st1) \<Rightarrow>
               (fm\<lparr>base_f := CompleteCycle True (bm\<lparr>ScrapParts := ScrapParts bm + 1\<rparr>)\<rparr>, st1)
           | (True, st1) \<Rightarrow>
               (let bm1 = bm\<lparr>GoodParts := GoodParts bm + 1,
                             CurrentOrder := map_option
                               (\<lambda>order. order\<lparr>QuantityCompleted := QuantityCompleted order + 1\<rparr>)
                               (CurrentOrder bm)\<rparr>
                in (fm\<lparr>base_f := CompleteCycle False bm1\<rparr>, st1)))))"

definition F_completeCycle :: "tick_env \<Rightarrow> time \<Rightarrow> FormingMachine \<Rightarrow> FormingMachine" where
  "F_completeCycle env now fm =
     (let fm1 = fm\<lparr>formState := (formState fm)\<lparr>CycleCount_f := CycleCount_f (formState fm) + 1\<rparr>\<rparr>
      in if IsOrderComplete (base_f fm1)
         then
           (let fm2 = fm1\<lparr>base_f := TransitionTo (wallclock env) StateIdle (FinishOrder (base_f fm1))\<rparr>
            in fm2\<lparr>formState := (formState fm2)\<lparr>Phase_f := FormingPhaseIdle\<rparr>\<rparr>)
         else
           (let fm2 = fm1\<lparr>base_f := (base_f fm1)\<lparr>CycleStartedAt := now\<rparr>\<rparr>
            in F_generatePartID env (F_SetPhase (wallclock env) FormingPhaseLoad fm2)))"

text \<open>The phase boundaries of \<open>updateRunning\<close>, as offsets from the start of the cycle.\<close>

definition F_loadEnd :: "FormingMachine \<Rightarrow> duration" where
  "F_loadEnd fm = to_Duration (of_int (CycleTime (config (base_f fm))) * LoadFraction_f (formConfig fm))"

definition F_formEnd :: "FormingMachine \<Rightarrow> duration" where
  "F_formEnd fm =
     F_loadEnd fm + to_Duration (of_int (CycleTime (config (base_f fm))) * FormFraction_f (formConfig fm))"

definition F_holdEnd :: "FormingMachine \<Rightarrow> duration" where
  "F_holdEnd fm =
     F_formEnd fm + to_Duration (of_int (CycleTime (config (base_f fm))) * HoldFraction_f (formConfig fm))"

definition F_ejectEnd :: "FormingMachine \<Rightarrow> duration" where
  "F_ejectEnd fm =
     F_holdEnd fm + to_Duration (of_int (CycleTime (config (base_f fm))) * EjectFraction_f (formConfig fm))"

definition F_updateRunning ::
  "tick_env \<Rightarrow> time \<Rightarrow> bool \<Rightarrow> FormingMachine \<times> store \<Rightarrow> FormingMachine \<times> store" where
  "F_updateRunning env now isBreakTime fs =
     (case fs of (fm, st) \<Rightarrow>
       if isBreakTime
       then
         (let fm1 = fm\<lparr>base_f := TransitionTo (wallclock env) StatePlannedStop (base_f fm)\<rparr>
          in (fm1\<lparr>formState := (formState fm1)\<lparr>Phase_f := FormingPhaseIdle\<rparr>\<rparr>, st))
       else if F_shouldTriggerError env fm
       then (F_triggerError env now fm, st)
       else if IsFull (cells st (OutputBuffer (formState fm)))
               \<and> Phase_f (formState fm) = FormingPhaseEject
       then (fm, st)
       else
         (let cycleElapsed = ElapsedInCycle (wallclock env) (base_f fm);
              cycleTime = CycleTime (config (base_f fm))
          in case Phase_f (formState fm) of
               FormingPhaseLoad \<Rightarrow>
                 (if cycleElapsed \<ge> F_loadEnd fm
                  then (F_SetPhase (wallclock env) FormingPhaseForm fm, st) else (fm, st))
             | FormingPhaseForm \<Rightarrow>
                 (if cycleElapsed \<ge> F_formEnd fm
                  then (F_SetPhase (wallclock env) FormingPhaseHold fm, st) else (fm, st))
             | FormingPhaseHold \<Rightarrow>
                 (if cycleElapsed \<ge> F_holdEnd fm
                  then (F_SetPhase (wallclock env) FormingPhaseEject fm, st) else (fm, st))
             | FormingPhaseEject \<Rightarrow>
                 (if cycleElapsed \<ge> F_ejectEnd fm
                  then (case F_ejectPart env now (fm, st) of
                          (fm1, st1) \<Rightarrow> (F_SetPhase (wallclock env) FormingPhaseRaise fm1, st1))
                  else (fm, st))
             | FormingPhaseRaise \<Rightarrow>
                 (if cycleElapsed \<ge> cycleTime
                  then (F_completeCycle env now fm, st) else (fm, st))
             | FormingPhaseIdle \<Rightarrow> (fm, st)))"

definition F_updatePlannedStop :: "tick_env \<Rightarrow> bool \<Rightarrow> FormingMachine \<Rightarrow> FormingMachine" where
  "F_updatePlannedStop env isBreakTime fm =
     (if \<not> isBreakTime then fm\<lparr>base_f := TransitionTo (wallclock env) StateIdle (base_f fm)\<rparr> else fm)"

definition F_updateUnplannedStop :: "tick_env \<Rightarrow> time \<Rightarrow> FormingMachine \<Rightarrow> FormingMachine" where
  "F_updateUnplannedStop env now fm =
     (if IsErrorResolved now (base_f fm)
      then fm\<lparr>base_f := TransitionTo (wallclock env) StateIdle (ClearError (base_f fm))\<rparr>
      else fm)"

definition F_Update ::
  "tick_env \<Rightarrow> time \<Rightarrow> bool \<Rightarrow> FormingMachine \<times> store \<Rightarrow> FormingMachine \<times> store" where
  "F_Update env now isBreakTime fs =
     (case fs of (fm, st) \<Rightarrow>
       (let elapsed = ElapsedInState (wallclock env) (base_f fm)
        in case state (base_f fm) of
             StateIdle \<Rightarrow> (F_updateIdle env now fm, st)
           | StateSetup \<Rightarrow> (F_updateSetup env elapsed now fm, st)
           | StateRunning \<Rightarrow> F_updateRunning env now isBreakTime (fm, st)
           | StatePlannedStop \<Rightarrow> (F_updatePlannedStop env isBreakTime fm, st)
           | StateUnplannedStop \<Rightarrow> (F_updateUnplannedStop env now fm, st)))"

subsection \<open>picker: the pick-and-place robot\<close>

datatype PickerPhase =
  PickerPhaseIdle | PhaseMoveToPickup | PhaseApproachPickup | PhaseGrip | PhaseRetractPickup
  | PhaseMoveToPlace | PhaseApproachPlace | PhaseRelease | PhaseRetractPlace

datatype GripperState = GripperOpen | GripperClosing | GripperClosed | GripperOpening

datatype PickerErrorCode =
  P_ErrorGripperFault | P_ErrorCollision | P_ErrorPositionFault | P_ErrorPartDropped
  | P_ErrorServoOverload | P_ErrorEmergencyStop

fun P_code :: "PickerErrorCode \<Rightarrow> string" where
  "P_code P_ErrorGripperFault = ''P001''"
| "P_code P_ErrorCollision = ''P002''"
| "P_code P_ErrorPositionFault = ''P003''"
| "P_code P_ErrorPartDropped = ''P004''"
| "P_code P_ErrorServoOverload = ''P005''"
| "P_code P_ErrorEmergencyStop = ''P006''"

fun P_GetErrorInfo :: "PickerErrorCode \<Rightarrow> string \<times> duration \<times> duration" where
  "P_GetErrorInfo P_ErrorGripperFault = (''Gripper mechanism fault'', 30 * second, 1 * minute)"
| "P_GetErrorInfo P_ErrorCollision = (''Collision detected'', 1 * minute, 3 * minute)"
| "P_GetErrorInfo P_ErrorPositionFault = (''Position feedback error'', 45 * second, 2 * minute)"
| "P_GetErrorInfo P_ErrorPartDropped = (''Part dropped during transfer'', 30 * second, 1 * minute)"
| "P_GetErrorInfo P_ErrorServoOverload = (''Servo motor overload'', 1 * minute, 2 * minute)"
| "P_GetErrorInfo P_ErrorEmergencyStop = (''Emergency stop activated'', 20 * second, 1 * minute)"

definition P_AllErrorCodes :: "PickerErrorCode list" where
  "P_AllErrorCodes =
     [P_ErrorGripperFault, P_ErrorCollision, P_ErrorPositionFault, P_ErrorPartDropped,
      P_ErrorServoOverload, P_ErrorEmergencyStop]"

text \<open>
  The tool position, the joint angles and the gripper opening are interpolated in floating
  point for the timeseries; no branch reads them, and they are left out with the
  positions of the configuration.
\<close>

record PickerConfig =
  MoveToPickupFraction :: rat
  ApproachPickupFraction :: rat
  GripFraction :: rat
  RetractPickupFraction :: rat
  MoveToPlaceFraction :: rat
  ApproachPlaceFraction :: rat
  ReleaseFraction_p :: rat
  RetractPlaceFraction :: rat

definition DefaultPickerConfig :: PickerConfig where
  "DefaultPickerConfig =
     \<lparr>MoveToPickupFraction = 15 / 100, ApproachPickupFraction = 8 / 100, GripFraction = 5 / 100,
      RetractPickupFraction = 8 / 100, MoveToPlaceFraction = 20 / 100,
      ApproachPlaceFraction = 8 / 100, ReleaseFraction_p = 5 / 100,
      RetractPlaceFraction = 8 / 100\<rparr>"

record PickerState =
  Phase_p :: PickerPhase
  PhaseStartedAt_p :: time
  CycleCount_p :: int
  Gripper :: GripperState
  HeldPartID :: string
  HeldPart :: "Part ptr"

record PickerRobot =
  base_p :: BaseMachine
  pickerConfig :: PickerConfig
  pickerState :: PickerState
  name_p :: string
  inputBuffer :: "addr ptr"
  outputBuffer :: "addr ptr"

definition NewPickerRobot :: "time \<Rightarrow> string \<Rightarrow> MachineConfig \<Rightarrow> PickerConfig \<Rightarrow> PickerRobot" where
  "NewPickerRobot clock name cfg pickerCfg =
     \<lparr>base_p = NewBaseMachine clock cfg, pickerConfig = pickerCfg,
      pickerState = \<lparr>Phase_p = PickerPhaseIdle, PhaseStartedAt_p = 0, CycleCount_p = 0,
                     Gripper = GripperOpen, HeldPartID = [], HeldPart = None\<rparr>,
      name_p = name, inputBuffer = None, outputBuffer = None\<rparr>"

definition SetInputBuffer :: "addr ptr \<Rightarrow> PickerRobot \<Rightarrow> PickerRobot" where
  "SetInputBuffer buf pr = pr\<lparr>inputBuffer := buf\<rparr>"

definition SetOutputBuffer :: "addr ptr \<Rightarrow> PickerRobot \<Rightarrow> PickerRobot" where
  "SetOutputBuffer buf pr = pr\<lparr>outputBuffer := buf\<rparr>"

definition P_Start :: "PickerRobot \<Rightarrow> PickerRobot" where
  "P_Start pr =
     pr\<lparr>pickerState := (pickerState pr)\<lparr>Phase_p := PickerPhaseIdle, CycleCount_p := 0,
                                           Gripper := GripperOpen\<rparr>\<rparr>"

definition P_SetPhase :: "time \<Rightarrow> PickerPhase \<Rightarrow> PickerRobot \<Rightarrow> PickerRobot" where
  "P_SetPhase clock phase pr =
     pr\<lparr>pickerState := (pickerState pr)\<lparr>Phase_p := phase, PhaseStartedAt_p := clock\<rparr>\<rparr>"

definition GetHeldPartID :: "PickerRobot \<Rightarrow> string" where
  "GetHeldPartID pr = HeldPartID (pickerState pr)"

definition input_has_parts :: "PickerRobot \<Rightarrow> store \<Rightarrow> bool" where
  "input_has_parts pr st =
     (case inputBuffer pr of None \<Rightarrow> False | Some a \<Rightarrow> Count (cells st a) > 0)"

definition P_updateIdle :: "tick_env \<Rightarrow> time \<Rightarrow> PickerRobot \<times> store \<Rightarrow> PickerRobot \<times> store" where
  "P_updateIdle env now ps =
     (case ps of (pr, st) \<Rightarrow>
       (let pr1 = pr\<lparr>pickerState := (pickerState pr)\<lparr>Phase_p := PickerPhaseIdle\<rparr>\<rparr>
        in if input_has_parts pr1 st
           then (pr1\<lparr>base_p := TransitionTo (wallclock env) StateSetup (base_p pr1)\<rparr>, st)
           else (pr1, st)))"

definition P_updateSetup ::
  "RuntimeConfig \<Rightarrow> tick_env \<Rightarrow> duration \<Rightarrow> time \<Rightarrow> PickerRobot \<Rightarrow> PickerRobot" where
  "P_updateSetup rt env elapsed now pr =
     (if elapsed \<ge> GetEffectiveSetupTime rt (config (base_p pr))
      then
        (let pr1 = pr\<lparr>base_p := (TransitionTo (wallclock env) StateRunning (base_p pr))
                                   \<lparr>CycleStartedAt := now\<rparr>\<rparr>
         in P_SetPhase (wallclock env) PhaseMoveToPickup pr1)
      else pr)"

definition P_shouldTriggerError :: "RuntimeConfig \<Rightarrow> tick_env \<Rightarrow> PickerRobot \<Rightarrow> bool" where
  "P_shouldTriggerError rt env pr =
     (if Phase_p (pickerState pr) = PickerPhaseIdle then False
      else ShouldTrigger (errU env) (GetEffectiveErrorRate rt (config (base_p pr)))
             (PublishInterval (config (base_p pr)))
             (GetEffectiveCycleTime rt (config (base_p pr))))"

definition P_triggerError :: "RuntimeConfig \<Rightarrow> tick_env \<Rightarrow> time \<Rightarrow> PickerRobot \<Rightarrow> PickerRobot" where
  "P_triggerError rt env now pr =
     (let errors = P_AllErrorCodes;
          errorCode = errors ! UniformInt (errPick env) 0 (length errors - 1)
      in case P_GetErrorInfo errorCode of (message, minDur, maxDur) \<Rightarrow>
        (let baseDuration = to_Duration (Uniform (durU env) (of_int minDur) (of_int maxDur));
             dur = GetEffectiveErrorDuration rt (config (base_p pr)) baseDuration;
             pr1 = (if errorCode = P_ErrorPartDropped \<and> HeldPartID (pickerState pr) \<noteq> []
                    then pr\<lparr>base_p := (base_p pr)\<lparr>ScrapParts := ScrapParts (base_p pr) + 1\<rparr>,
                            pickerState := (pickerState pr)\<lparr>HeldPartID := [], HeldPart := None,
                                                                Gripper := GripperOpen\<rparr>\<rparr>
                    else pr);
             pr2 = pr1\<lparr>base_p := TriggerError (wallclock env) (P_code errorCode) message dur (base_p pr1)\<rparr>
         in pr2\<lparr>pickerState := (pickerState pr2)\<lparr>Phase_p := PickerPhaseIdle\<rparr>\<rparr>))"

definition P_completeCycle :: "tick_env \<Rightarrow> time \<Rightarrow> PickerRobot \<times> store \<Rightarrow> PickerRobot \<times> store" where
  "P_completeCycle env now ps =
     (case ps of (pr, st) \<Rightarrow>
       (let pr1 = pr\<lparr>pickerState := (pickerState pr)\<lparr>CycleCount_p := CycleCount_p (pickerState pr) + 1\<rparr>\<rparr>;
            pr2 = pr1\<lparr>base_p := CompleteCycle False
                                    ((base_p pr1)\<lparr>GoodParts := GoodParts (base_p pr1) + 1\<rparr>)\<rparr>
        in if input_has_parts pr2 st
           then (P_SetPhase (wallclock env) PhaseMoveToPickup
                   (pr2\<lparr>base_p := (base_p pr2)\<lparr>CycleStartedAt := now\<rparr>\<rparr>), st)
           else
             (let pr3 = pr2\<lparr>base_p := TransitionTo (wallclock env) StateIdle (base_p pr2)\<rparr>
              in (pr3\<lparr>pickerState := (pickerState pr3)\<lparr>Phase_p := PickerPhaseIdle\<rparr>\<rparr>, st))))"

text \<open>The phase boundaries of \<open>updateRunning\<close>, from the effective cycle time.\<close>

definition P_cycleTime :: "RuntimeConfig \<Rightarrow> PickerRobot \<Rightarrow> duration" where
  "P_cycleTime rt pr = GetEffectiveCycleTime rt (config (base_p pr))"

definition P_moveToPickupEnd :: "RuntimeConfig \<Rightarrow> PickerRobot \<Rightarrow> duration" where
  "P_moveToPickupEnd rt pr =
     to_Duration (of_int (P_cycleTime rt pr) * MoveToPickupFraction (pickerConfig pr))"

definition P_approachPickupEnd :: "RuntimeConfig \<Rightarrow> PickerRobot \<Rightarrow> duration" where
  "P_approachPickupEnd rt pr =
     P_moveToPickupEnd rt pr
     + to_Duration (of_int (P_cycleTime rt pr) * ApproachPickupFraction (pickerConfig pr))"

definition P_gripEnd :: "RuntimeConfig \<Rightarrow> PickerRobot \<Rightarrow> duration" where
  "P_gripEnd rt pr =
     P_approachPickupEnd rt pr
     + to_Duration (of_int (P_cycleTime rt pr) * GripFraction (pickerConfig pr))"

definition P_retractPickupEnd :: "RuntimeConfig \<Rightarrow> PickerRobot \<Rightarrow> duration" where
  "P_retractPickupEnd rt pr =
     P_gripEnd rt pr
     + to_Duration (of_int (P_cycleTime rt pr) * RetractPickupFraction (pickerConfig pr))"

definition P_moveToPlaceEnd :: "RuntimeConfig \<Rightarrow> PickerRobot \<Rightarrow> duration" where
  "P_moveToPlaceEnd rt pr =
     P_retractPickupEnd rt pr
     + to_Duration (of_int (P_cycleTime rt pr) * MoveToPlaceFraction (pickerConfig pr))"

definition P_approachPlaceEnd :: "RuntimeConfig \<Rightarrow> PickerRobot \<Rightarrow> duration" where
  "P_approachPlaceEnd rt pr =
     P_moveToPlaceEnd rt pr
     + to_Duration (of_int (P_cycleTime rt pr) * ApproachPlaceFraction (pickerConfig pr))"

definition P_releaseEnd :: "RuntimeConfig \<Rightarrow> PickerRobot \<Rightarrow> duration" where
  "P_releaseEnd rt pr =
     P_approachPlaceEnd rt pr
     + to_Duration (of_int (P_cycleTime rt pr) * ReleaseFraction_p (pickerConfig pr))"

definition P_retractPlaceEnd :: "RuntimeConfig \<Rightarrow> PickerRobot \<Rightarrow> duration" where
  "P_retractPlaceEnd rt pr =
     P_releaseEnd rt pr
     + to_Duration (of_int (P_cycleTime rt pr) * RetractPlaceFraction (pickerConfig pr))"

definition P_updateGrip ::
  "tick_env \<Rightarrow> duration \<Rightarrow> duration \<Rightarrow> PickerRobot \<times> store \<Rightarrow> PickerRobot \<times> store" where
  "P_updateGrip env elapsed phaseEnd ps =
     (case ps of (pr, st) \<Rightarrow>
       if elapsed \<ge> phaseEnd
       then
         (let pr1 = pr\<lparr>pickerState := (pickerState pr)\<lparr>Gripper := GripperClosed\<rparr>\<rparr>
          in case inputBuffer pr1 of
               None \<Rightarrow> (P_SetPhase (wallclock env) PhaseRetractPickup pr1, st)
             | Some a \<Rightarrow>
                 (case Pop_at a st of
                    (None, st1) \<Rightarrow> (P_SetPhase (wallclock env) PhaseRetractPickup pr1, st1)
                  | (Some part, st1) \<Rightarrow>
                      (P_SetPhase (wallclock env) PhaseRetractPickup
                         (pr1\<lparr>pickerState := (pickerState pr1)
                                \<lparr>HeldPartID := ID part,
                                 HeldPart := Some (part\<lparr>PStatus := PartStatusInTransit,
                                                        Location := name_p pr1\<rparr>)\<rparr>\<rparr>),
                       st1)))
       else (pr, st))"

definition P_updateRelease ::
  "tick_env \<Rightarrow> duration \<Rightarrow> duration \<Rightarrow> time \<Rightarrow> PickerRobot \<times> store \<Rightarrow> PickerRobot \<times> store" where
  "P_updateRelease env elapsed phaseEnd now ps =
     (case ps of (pr, st) \<Rightarrow>
       if elapsed \<ge> phaseEnd
       then
         (let pr1 = pr\<lparr>pickerState := (pickerState pr)\<lparr>Gripper := GripperOpen\<rparr>\<rparr>
          in case HeldPart (pickerState pr1) of
               None \<Rightarrow> (P_SetPhase (wallclock env) PhaseRetractPlace pr1, st)
             | Some held \<Rightarrow>
                 (let part = held\<lparr>PStatus := PartStatusAwaitingWelding, PickingComplete := now,
                                  PickerRobotID := name_p pr1\<rparr>;
                      st1 = (case outputBuffer pr1 of
                               None \<Rightarrow> st
                             | Some a \<Rightarrow> snd (Push_at a (Some part) st));
                      pr2 = pr1\<lparr>pickerState := (pickerState pr1)\<lparr>HeldPartID := [], HeldPart := None\<rparr>\<rparr>
                  in (P_SetPhase (wallclock env) PhaseRetractPlace pr2, st1)))
       else (pr, st))"

definition P_updateRunning ::
  "RuntimeConfig \<Rightarrow> tick_env \<Rightarrow> time \<Rightarrow> bool \<Rightarrow> PickerRobot \<times> store \<Rightarrow> PickerRobot \<times> store" where
  "P_updateRunning rt env now isBreakTime ps =
     (case ps of (pr, st) \<Rightarrow>
       if isBreakTime \<and> HeldPartID (pickerState pr) = []
       then
         (let pr1 = pr\<lparr>base_p := TransitionTo (wallclock env) StatePlannedStop (base_p pr)\<rparr>
          in (pr1\<lparr>pickerState := (pickerState pr1)\<lparr>Phase_p := PickerPhaseIdle\<rparr>\<rparr>, st))
       else if P_shouldTriggerError rt env pr
       then (P_triggerError rt env now pr, st)
       else
         (let cycleElapsed = ElapsedInCycle (wallclock env) (base_p pr)
          in case Phase_p (pickerState pr) of
               PhaseMoveToPickup \<Rightarrow>
                 (if cycleElapsed \<ge> P_moveToPickupEnd rt pr
                  then (P_SetPhase (wallclock env) PhaseApproachPickup pr, st) else (pr, st))
             | PhaseApproachPickup \<Rightarrow>
                 (if cycleElapsed \<ge> P_approachPickupEnd rt pr
                  then ((P_SetPhase (wallclock env) PhaseGrip pr)
                          \<lparr>pickerState := (pickerState (P_SetPhase (wallclock env) PhaseGrip pr))
                                             \<lparr>Gripper := GripperClosing\<rparr>\<rparr>, st)
                  else (pr, st))
             | PhaseGrip \<Rightarrow> P_updateGrip env cycleElapsed (P_gripEnd rt pr) (pr, st)
             | PhaseRetractPickup \<Rightarrow>
                 (if cycleElapsed \<ge> P_retractPickupEnd rt pr
                  then (P_SetPhase (wallclock env) PhaseMoveToPlace pr, st) else (pr, st))
             | PhaseMoveToPlace \<Rightarrow>
                 (if cycleElapsed \<ge> P_moveToPlaceEnd rt pr
                  then (P_SetPhase (wallclock env) PhaseApproachPlace pr, st) else (pr, st))
             | PhaseApproachPlace \<Rightarrow>
                 (if cycleElapsed \<ge> P_approachPlaceEnd rt pr
                  then ((P_SetPhase (wallclock env) PhaseRelease pr)
                          \<lparr>pickerState := (pickerState (P_SetPhase (wallclock env) PhaseRelease pr))
                                             \<lparr>Gripper := GripperOpening\<rparr>\<rparr>, st)
                  else (pr, st))
             | PhaseRelease \<Rightarrow> P_updateRelease env cycleElapsed (P_releaseEnd rt pr) now (pr, st)
             | PhaseRetractPlace \<Rightarrow>
                 (if cycleElapsed \<ge> P_retractPlaceEnd rt pr
                  then P_completeCycle env now (pr, st) else (pr, st))
             | PickerPhaseIdle \<Rightarrow> (pr, st)))"

definition P_updatePlannedStop :: "tick_env \<Rightarrow> bool \<Rightarrow> PickerRobot \<Rightarrow> PickerRobot" where
  "P_updatePlannedStop env isBreakTime pr =
     (if \<not> isBreakTime then pr\<lparr>base_p := TransitionTo (wallclock env) StateIdle (base_p pr)\<rparr> else pr)"

definition P_updateUnplannedStop :: "tick_env \<Rightarrow> time \<Rightarrow> PickerRobot \<Rightarrow> PickerRobot" where
  "P_updateUnplannedStop env now pr =
     (if IsErrorResolved now (base_p pr)
      then pr\<lparr>base_p := TransitionTo (wallclock env) StateIdle (ClearError (base_p pr))\<rparr>
      else pr)"

definition P_Update ::
  "RuntimeConfig \<Rightarrow> tick_env \<Rightarrow> time \<Rightarrow> bool \<Rightarrow> PickerRobot \<times> store \<Rightarrow> PickerRobot \<times> store" where
  "P_Update rt env now isBreakTime ps =
     (case ps of (pr, st) \<Rightarrow>
       (let elapsed = ElapsedInState (wallclock env) (base_p pr)
        in case state (base_p pr) of
             StateIdle \<Rightarrow> P_updateIdle env now (pr, st)
           | StateSetup \<Rightarrow> (P_updateSetup rt env elapsed now pr, st)
           | StateRunning \<Rightarrow> P_updateRunning rt env now isBreakTime (pr, st)
           | StatePlannedStop \<Rightarrow> (P_updatePlannedStop env isBreakTime pr, st)
           | StateUnplannedStop \<Rightarrow> (P_updateUnplannedStop env now pr, st)))"

subsection \<open>spotwelder: the stud spot welder\<close>

datatype SpotWelderPhase =
  WelderPhaseIdle | WelderPhaseLoad | WelderPhaseClamp | WelderPhasePreWeld | WelderPhaseWeld
  | WelderPhaseHold | WelderPhaseRelease | WelderPhaseUnload

datatype WelderErrorCode =
  S_ErrorWeldFault | S_ErrorClampFault | S_ErrorStudMisfeed | S_ErrorOverheat
  | S_ErrorCurrentFault | S_ErrorQualityReject

fun S_code :: "WelderErrorCode \<Rightarrow> string" where
  "S_code S_ErrorWeldFault = ''S001''"
| "S_code S_ErrorClampFault = ''S002''"
| "S_code S_ErrorStudMisfeed = ''S003''"
| "S_code S_ErrorOverheat = ''S004''"
| "S_code S_ErrorCurrentFault = ''S005''"
| "S_code S_ErrorQualityReject = ''S006''"

fun S_GetErrorInfo :: "WelderErrorCode \<Rightarrow> string \<times> duration \<times> duration" where
  "S_GetErrorInfo S_ErrorWeldFault = (''Weld quality fault detected'', 30 * second, 1 * minute)"
| "S_GetErrorInfo S_ErrorClampFault = (''Clamp mechanism fault'', 45 * second, 2 * minute)"
| "S_GetErrorInfo S_ErrorStudMisfeed = (''Stud feed mechanism jam'', 30 * second, 1 * minute)"
| "S_GetErrorInfo S_ErrorOverheat = (''Electrode overheat protection'', 1 * minute, 3 * minute)"
| "S_GetErrorInfo S_ErrorCurrentFault = (''Weld current out of range'', 45 * second, 90 * second)"
| "S_GetErrorInfo S_ErrorQualityReject = (''Weld quality below threshold'', 20 * second, 45 * second)"

definition S_AllErrorCodes :: "WelderErrorCode list" where
  "S_AllErrorCodes =
     [S_ErrorWeldFault, S_ErrorClampFault, S_ErrorStudMisfeed, S_ErrorOverheat,
      S_ErrorCurrentFault, S_ErrorQualityReject]"

text \<open>
  Of the configuration, the welding and force parameters feed the timeseries only and are
  left out. The electrode and part temperatures are kept: the electrode temperature
  decides the error code. \<open>completeCycle\<close> stamps the finished part just before it drops
  its pointer to it; no one holds the part afterwards, and the stamp is left out.
\<close>

record SpotWelderConfig =
  WeldsPerPart :: int
  MaxElectrodeTemp :: rat
  LoadFraction_w :: rat
  ClampFraction :: rat
  PreWeldFraction :: rat
  WeldFraction :: rat
  HoldFraction_w :: rat
  ReleaseFraction_w :: rat
  UnloadFraction :: rat
  ElectrodeLifeWelds :: int
  InputBufferCapacity :: int

definition DefaultSpotWelderConfig :: SpotWelderConfig where
  "DefaultSpotWelderConfig =
     \<lparr>WeldsPerPart = 4, MaxElectrodeTemp = 400, LoadFraction_w = 10 / 100,
      ClampFraction = 10 / 100, PreWeldFraction = 5 / 100, WeldFraction = 35 / 100,
      HoldFraction_w = 15 / 100, ReleaseFraction_w = 10 / 100, UnloadFraction = 15 / 100,
      ElectrodeLifeWelds = 5000, InputBufferCapacity = 3\<rparr>"

record SpotWelderState =
  Phase_w :: SpotWelderPhase
  PhaseStartedAt_w :: time
  CycleCount_w :: int
  WeldsInCurrentPart :: int
  TotalWelds :: int
  ElectrodeWeldCount :: int
  CurrentPartID_w :: string
  CurrentPart :: "Part ptr"
  InputBuffer :: addr
  ElectrodeTemp :: rat
  PartTemp :: rat

record SpotWelder =
  base_w :: BaseMachine
  welderConfig :: SpotWelderConfig
  welderState :: SpotWelderState
  name_w :: string

definition NewSpotWelder ::
  "time \<Rightarrow> string \<Rightarrow> MachineConfig \<Rightarrow> SpotWelderConfig \<Rightarrow> store \<Rightarrow> (SpotWelder \<times> store) option" where
  "NewSpotWelder clock name cfg welderCfg st =
     (case alloc_PartBuffer (InputBufferCapacity welderCfg) st of
        None \<Rightarrow> None
      | Some (a, st1) \<Rightarrow>
          Some (\<lparr>base_w = NewBaseMachine clock cfg, welderConfig = welderCfg,
                 welderState = \<lparr>Phase_w = WelderPhaseIdle, PhaseStartedAt_w = 0, CycleCount_w = 0,
                                WeldsInCurrentPart = 0, TotalWelds = 0, ElectrodeWeldCount = 0,
                                CurrentPartID_w = [], CurrentPart = None, InputBuffer = a,
                                ElectrodeTemp = 25, PartTemp = 25\<rparr>,
                 name_w = name\<rparr>, st1))"

definition GetInputBuffer :: "SpotWelder \<Rightarrow> addr" where
  "GetInputBuffer sw = InputBuffer (welderState sw)"

definition S_Start :: "SpotWelder \<Rightarrow> SpotWelder" where
  "S_Start sw =
     sw\<lparr>welderState := (welderState sw)\<lparr>Phase_w := WelderPhaseIdle, CycleCount_w := 0,
                                           ElectrodeTemp := 25, PartTemp := 25\<rparr>\<rparr>"

definition S_SetPhase :: "time \<Rightarrow> SpotWelderPhase \<Rightarrow> SpotWelder \<Rightarrow> SpotWelder" where
  "S_SetPhase clock phase sw =
     sw\<lparr>welderState := (welderState sw)\<lparr>Phase_w := phase, PhaseStartedAt_w := clock\<rparr>\<rparr>"

definition GetElectrodeWear :: "SpotWelder \<Rightarrow> rat" where
  "GetElectrodeWear sw =
     of_int (ElectrodeWeldCount (welderState sw)) / of_int (ElectrodeLifeWelds (welderConfig sw)) * 100"

definition coolDown :: "SpotWelder \<Rightarrow> SpotWelder" where
  "coolDown sw =
     sw\<lparr>welderState := (welderState sw)
          \<lparr>ElectrodeTemp := 25 + (ElectrodeTemp (welderState sw) - 25) * (995 / 1000),
           PartTemp := 25 + (PartTemp (welderState sw) - 25) * (98 / 100)\<rparr>\<rparr>"

definition S_take_part :: "Part \<Rightarrow> SpotWelder \<Rightarrow> SpotWelder" where
  "S_take_part part sw =
     sw\<lparr>welderState := (welderState sw)
          \<lparr>CurrentPartID_w := ID part,
           CurrentPart := Some (part\<lparr>PStatus := PartStatusBeingWelded, Location := name_w sw\<rparr>)\<rparr>\<rparr>"

definition S_updateIdle :: "tick_env \<Rightarrow> time \<Rightarrow> SpotWelder \<times> store \<Rightarrow> SpotWelder \<times> store" where
  "S_updateIdle env now ws =
     (case ws of (sw, st) \<Rightarrow>
       (let sw1 = sw\<lparr>welderState := (welderState sw)\<lparr>Phase_w := WelderPhaseIdle\<rparr>\<rparr>
        in if Count (cells st (InputBuffer (welderState sw1))) > 0
           then (sw1\<lparr>base_w := TransitionTo (wallclock env) StateSetup (base_w sw1)\<rparr>, st)
           else (sw1, st)))"

definition S_updateSetup ::
  "tick_env \<Rightarrow> duration \<Rightarrow> time \<Rightarrow> SpotWelder \<times> store \<Rightarrow> SpotWelder \<times> store" where
  "S_updateSetup env elapsed now ws =
     (case ws of (sw, st) \<Rightarrow>
       if elapsed \<ge> SetupTime (config (base_w sw))
       then
         (case Pop_at (InputBuffer (welderState sw)) st of
            (Some part, st1) \<Rightarrow>
              (let sw1 = S_take_part part sw;
                   sw2 = sw1\<lparr>base_w := (TransitionTo (wallclock env) StateRunning (base_w sw1))
                                           \<lparr>CycleStartedAt := now\<rparr>\<rparr>;
                   sw3 = S_SetPhase (wallclock env) WelderPhaseLoad sw2
               in (sw3\<lparr>welderState := (welderState sw3)\<lparr>WeldsInCurrentPart := 0\<rparr>\<rparr>, st1))
          | (None, st1) \<Rightarrow>
              (sw\<lparr>base_w := TransitionTo (wallclock env) StateIdle (base_w sw)\<rparr>, st1))
       else (sw, st))"

definition S_shouldTriggerError :: "tick_env \<Rightarrow> SpotWelder \<Rightarrow> bool" where
  "S_shouldTriggerError env sw =
     (if Phase_w (welderState sw) \<noteq> WelderPhaseWeld then False
      else
        (let errorRate = (if GetElectrodeWear sw > 80
                          then ErrorRate (config (base_w sw)) * 3
                          else ErrorRate (config (base_w sw)))
         in ShouldTrigger (errU env) errorRate (PublishInterval (config (base_w sw)))
              (CycleTime (config (base_w sw)))))"

definition S_triggerError :: "tick_env \<Rightarrow> time \<Rightarrow> SpotWelder \<Rightarrow> SpotWelder" where
  "S_triggerError env now sw =
     (let errors = S_AllErrorCodes;
          picked = errors ! UniformInt (errPick env) 0 (length errors - 1);
          errorCode = (if ElectrodeTemp (welderState sw) > MaxElectrodeTemp (welderConfig sw)
                       then S_ErrorOverheat else picked)
      in case S_GetErrorInfo errorCode of (message, minDur, maxDur) \<Rightarrow>
        (let dur = to_Duration (Uniform (durU env) (of_int minDur) (of_int maxDur));
             sw1 = (if errorCode = S_ErrorQualityReject \<and> CurrentPartID_w (welderState sw) \<noteq> []
                    then sw\<lparr>base_w := (base_w sw)\<lparr>ScrapParts := ScrapParts (base_w sw) + 1\<rparr>,
                            welderState := (welderState sw)\<lparr>CurrentPartID_w := [], CurrentPart := None\<rparr>\<rparr>
                    else sw);
             sw2 = sw1\<lparr>base_w := TriggerError (wallclock env) (S_code errorCode) message dur (base_w sw1)\<rparr>
         in sw2\<lparr>welderState := (welderState sw2)\<lparr>Phase_w := WelderPhaseIdle\<rparr>\<rparr>))"

definition S_updateWeldPhase ::
  "tick_env \<Rightarrow> duration \<Rightarrow> duration \<Rightarrow> duration \<Rightarrow> SpotWelder \<Rightarrow> SpotWelder" where
  "S_updateWeldPhase env elapsed phaseStart phaseEnd sw =
     (let phaseDuration = phaseEnd - phaseStart;
          phaseElapsed = elapsed - phaseStart;
          phaseProgress = (of_int phaseElapsed :: rat) / of_int phaseDuration;
          weldsPerPart = WeldsPerPart (welderConfig sw);
          n = to_Duration (phaseProgress * of_int weldsPerPart);
          weldNumber = (if n \<ge> weldsPerPart then weldsPerPart - 1 else n);
          ws = welderState sw;
          sw1 = (if weldNumber > WeldsInCurrentPart ws
                 then sw\<lparr>welderState := ws\<lparr>WeldsInCurrentPart := weldNumber,
                                              TotalWelds := TotalWelds ws + 1,
                                              ElectrodeWeldCount := ElectrodeWeldCount ws + 1,
                                              ElectrodeTemp := ElectrodeTemp ws + 15,
                                              PartTemp := PartTemp ws + 10\<rparr>\<rparr>
                 else sw)
      in if elapsed \<ge> phaseEnd
         then S_SetPhase (wallclock env) WelderPhaseHold
                (sw1\<lparr>welderState := (welderState sw1)
                       \<lparr>WeldsInCurrentPart := weldsPerPart,
                        TotalWelds := TotalWelds (welderState sw1) + 1,
                        ElectrodeWeldCount := ElectrodeWeldCount (welderState sw1) + 1\<rparr>\<rparr>)
         else sw1)"

definition S_completeCycle :: "tick_env \<Rightarrow> time \<Rightarrow> SpotWelder \<times> store \<Rightarrow> SpotWelder \<times> store" where
  "S_completeCycle env now ws =
     (case ws of (sw, st) \<Rightarrow>
       (let sw1 = sw\<lparr>welderState := (welderState sw)\<lparr>CycleCount_w := CycleCount_w (welderState sw) + 1\<rparr>\<rparr>;
            isScrap = Bool_noise (scrapU env) (ScrapRate (config (base_w sw1)));
            bm1 = (if isScrap
                   then (base_w sw1)\<lparr>ScrapParts := ScrapParts (base_w sw1) + 1\<rparr>
                   else (base_w sw1)\<lparr>GoodParts := GoodParts (base_w sw1) + 1\<rparr>);
            sw2 = sw1\<lparr>base_w := CompleteCycle isScrap bm1,
                       welderState := (welderState sw1)\<lparr>CurrentPartID_w := [], CurrentPart := None,
                                                          WeldsInCurrentPart := 0\<rparr>\<rparr>
        in if Count (cells st (InputBuffer (welderState sw2))) > 0
           then
             (let sw3 = sw2\<lparr>base_w := (base_w sw2)\<lparr>CycleStartedAt := now\<rparr>\<rparr>
              in case Pop_at (InputBuffer (welderState sw3)) st of
                   (Some part, st1) \<Rightarrow>
                     (S_SetPhase (wallclock env) WelderPhaseLoad (S_take_part part sw3), st1)
                 | (None, st1) \<Rightarrow> (sw3, st1))
           else
             (let sw3 = sw2\<lparr>base_w := TransitionTo (wallclock env) StateIdle (base_w sw2)\<rparr>
              in (sw3\<lparr>welderState := (welderState sw3)\<lparr>Phase_w := WelderPhaseIdle\<rparr>\<rparr>, st))))"

definition S_phaseLen :: "SpotWelder \<Rightarrow> rat \<Rightarrow> duration" where
  "S_phaseLen sw fraction = to_Duration (of_int (CycleTime (config (base_w sw))) * fraction)"

definition S_loadEnd :: "SpotWelder \<Rightarrow> duration" where
  "S_loadEnd sw = S_phaseLen sw (LoadFraction_w (welderConfig sw))"

definition S_clampEnd :: "SpotWelder \<Rightarrow> duration" where
  "S_clampEnd sw = S_loadEnd sw + S_phaseLen sw (ClampFraction (welderConfig sw))"

definition S_preWeldEnd :: "SpotWelder \<Rightarrow> duration" where
  "S_preWeldEnd sw = S_clampEnd sw + S_phaseLen sw (PreWeldFraction (welderConfig sw))"

definition S_weldEnd :: "SpotWelder \<Rightarrow> duration" where
  "S_weldEnd sw = S_preWeldEnd sw + S_phaseLen sw (WeldFraction (welderConfig sw))"

definition S_holdEnd :: "SpotWelder \<Rightarrow> duration" where
  "S_holdEnd sw = S_weldEnd sw + S_phaseLen sw (HoldFraction_w (welderConfig sw))"

definition S_releaseEnd :: "SpotWelder \<Rightarrow> duration" where
  "S_releaseEnd sw = S_holdEnd sw + S_phaseLen sw (ReleaseFraction_w (welderConfig sw))"

definition S_updateRunning ::
  "tick_env \<Rightarrow> time \<Rightarrow> bool \<Rightarrow> SpotWelder \<times> store \<Rightarrow> SpotWelder \<times> store" where
  "S_updateRunning env now isBreakTime ws =
     (case ws of (sw, st) \<Rightarrow>
       if isBreakTime \<and> Phase_w (welderState sw) = WelderPhaseIdle
       then (sw\<lparr>base_w := TransitionTo (wallclock env) StatePlannedStop (base_w sw)\<rparr>, st)
       else if S_shouldTriggerError env sw
       then (S_triggerError env now sw, st)
       else
         (let cycleElapsed = ElapsedInCycle (wallclock env) (base_w sw);
              cycleTime = CycleTime (config (base_w sw))
          in case Phase_w (welderState sw) of
               WelderPhaseLoad \<Rightarrow>
                 (if cycleElapsed \<ge> S_loadEnd sw
                  then (S_SetPhase (wallclock env) WelderPhaseClamp sw, st) else (sw, st))
             | WelderPhaseClamp \<Rightarrow>
                 (if cycleElapsed \<ge> S_clampEnd sw
                  then (S_SetPhase (wallclock env) WelderPhasePreWeld sw, st) else (sw, st))
             | WelderPhasePreWeld \<Rightarrow>
                 (if cycleElapsed \<ge> S_preWeldEnd sw
                  then (S_SetPhase (wallclock env) WelderPhaseWeld sw, st) else (sw, st))
             | WelderPhaseWeld \<Rightarrow>
                 (S_updateWeldPhase env cycleElapsed (S_preWeldEnd sw) (S_weldEnd sw) sw, st)
             | WelderPhaseHold \<Rightarrow>
                 (if cycleElapsed \<ge> S_holdEnd sw
                  then (S_SetPhase (wallclock env) WelderPhaseRelease sw, st) else (sw, st))
             | WelderPhaseRelease \<Rightarrow>
                 (if cycleElapsed \<ge> S_releaseEnd sw
                  then (S_SetPhase (wallclock env) WelderPhaseUnload sw, st) else (sw, st))
             | WelderPhaseUnload \<Rightarrow>
                 (if cycleElapsed \<ge> cycleTime
                  then S_completeCycle env now (sw, st) else (sw, st))
             | WelderPhaseIdle \<Rightarrow> (sw, st)))"

definition S_updatePlannedStop :: "tick_env \<Rightarrow> bool \<Rightarrow> SpotWelder \<Rightarrow> SpotWelder" where
  "S_updatePlannedStop env isBreakTime sw =
     (if \<not> isBreakTime then sw\<lparr>base_w := TransitionTo (wallclock env) StateIdle (base_w sw)\<rparr> else sw)"

definition S_updateUnplannedStop :: "tick_env \<Rightarrow> time \<Rightarrow> SpotWelder \<Rightarrow> SpotWelder" where
  "S_updateUnplannedStop env now sw =
     (if IsErrorResolved now (base_w sw)
      then sw\<lparr>base_w := TransitionTo (wallclock env) StateIdle (ClearError (base_w sw))\<rparr>
      else sw)"

definition S_Update ::
  "tick_env \<Rightarrow> time \<Rightarrow> bool \<Rightarrow> SpotWelder \<times> store \<Rightarrow> SpotWelder \<times> store" where
  "S_Update env now isBreakTime ws =
     (case ws of (sw0, st) \<Rightarrow>
       (let elapsed = ElapsedInState (wallclock env) (base_w sw0);
            sw = (if Phase_w (welderState sw0) \<noteq> WelderPhaseWeld then coolDown sw0 else sw0)
        in case state (base_w sw) of
             StateIdle \<Rightarrow> S_updateIdle env now (sw, st)
           | StateSetup \<Rightarrow> S_updateSetup env elapsed now (sw, st)
           | StateRunning \<Rightarrow> S_updateRunning env now isBreakTime (sw, st)
           | StatePlannedStop \<Rightarrow> (S_updatePlannedStop env isBreakTime sw, st)
           | StateUnplannedStop \<Rightarrow> (S_updateUnplannedStop env now sw, st)))"

subsection \<open>coordinator and line runner\<close>

datatype LineState = LineStateRunning | LineStateStopped | LineStateError | LineStateSetup

record LineConfig =
  FormingMachineName :: string
  PickerRobotName :: string
  SpotWelderName :: string
  LineName :: string
  TheoreticalCycleTime :: duration
  FormingBufferCapacity :: int
  WelderBufferCapacity :: int

definition DefaultLineConfig :: LineConfig where
  "DefaultLineConfig =
     \<lparr>FormingMachineName = ''FormingMachine'', PickerRobotName = ''PickerRobot'',
      SpotWelderName = ''SpotWelder'', LineName = ''ProductionLine'',
      TheoreticalCycleTime = 60 * second, FormingBufferCapacity = 5, WelderBufferCapacity = 3\<rparr>"

text \<open>
  The machines are objects of the runner; the coordinator holds pointers to them. A
  machine pointer is \<open>Some ()\<close> (the runner's machine of that type) or \<open>nil\<close>. The metrics
  collector, which only reads the machines, and the never-filled \<open>partsInProgress\<close> map
  are left out.
\<close>

type_synonym machine_ptr = "unit ptr"

record ProductionLineCoordinator =
  config_c :: LineConfig
  c_formingMachine :: machine_ptr
  c_pickerRobot :: machine_ptr
  c_spotWelder :: machine_ptr
  lineState :: LineState
  startTime :: time
  lastUpdate :: time
  totalPartsCompleted :: int
  totalPartsScrap :: int
  totalPartsStarted :: int
  formingCompleted :: int
  pickingCompleted :: int
  weldingCompleted :: int
  uptime :: duration
  downtime :: duration
  currentOrder :: "ProductionOrder ptr"
  lastErrorCode :: string
  lastErrorMachine :: string
  activeErrors :: int

record line =
  runtimeConfig :: RuntimeConfig
  formingMachine :: FormingMachine
  pickerRobot :: PickerRobot
  spotWelder :: SpotWelder
  coordinator :: ProductionLineCoordinator
  buffers :: store

definition NewProductionLineCoordinator :: "LineConfig \<Rightarrow> ProductionLineCoordinator" where
  "NewProductionLineCoordinator cfg =
     \<lparr>config_c = cfg, c_formingMachine = None, c_pickerRobot = None, c_spotWelder = None,
      lineState = LineStateStopped, startTime = 0, lastUpdate = 0, totalPartsCompleted = 0,
      totalPartsScrap = 0, totalPartsStarted = 0, formingCompleted = 0, pickingCompleted = 0,
      weldingCompleted = 0, uptime = 0, downtime = 0, currentOrder = None, lastErrorCode = [],
      lastErrorMachine = [], activeErrors = 0\<rparr>"

definition SetMachines :: "machine_ptr \<Rightarrow> machine_ptr \<Rightarrow> machine_ptr \<Rightarrow> line \<Rightarrow> line option" where
  "SetMachines forming picker welder plr =
     (let plr1 = plr\<lparr>coordinator := (coordinator plr)\<lparr>c_formingMachine := forming,
                                                       c_pickerRobot := picker,
                                                       c_spotWelder := welder\<rparr>\<rparr>;
          plr2 = (if picker \<noteq> None \<and> forming \<noteq> None
                 then plr1\<lparr>pickerRobot := SetInputBuffer (Some (GetOutputBuffer (formingMachine plr1)))
                                            (pickerRobot plr1)\<rparr>
                 else plr1)
      in if welder \<noteq> None \<and> picker \<noteq> None
         then
           (case alloc_PartBuffer (WelderBufferCapacity (config_c (coordinator plr2))) (buffers plr2) of
              None \<Rightarrow> None
            | Some (pickerOutputBuffer, st) \<Rightarrow>
                Some (plr2\<lparr>pickerRobot := SetOutputBuffer (Some pickerOutputBuffer) (pickerRobot plr2),
                          buffers := st\<rparr>))
         else Some plr2)"

definition C_Start :: "time \<Rightarrow> line \<Rightarrow> line" where
  "C_Start clock plr =
     (let c = (coordinator plr)\<lparr>lineState := LineStateSetup, startTime := clock, lastUpdate := clock\<rparr>;
          plr1 = plr\<lparr>coordinator := c\<rparr>;
          plr2 = (if c_formingMachine c \<noteq> None
                 then plr1\<lparr>formingMachine := F_Start (formingMachine plr1)\<rparr> else plr1);
          plr3 = (if c_pickerRobot c \<noteq> None
                 then plr2\<lparr>pickerRobot := P_Start (pickerRobot plr2)\<rparr> else plr2);
          plr4 = (if c_spotWelder c \<noteq> None
                 then plr3\<lparr>spotWelder := S_Start (spotWelder plr3)\<rparr> else plr3)
      in plr4\<lparr>coordinator := (coordinator plr4)\<lparr>lineState := LineStateRunning\<rparr>\<rparr>)"

definition C_Stop :: "line \<Rightarrow> line" where
  "C_Stop plr = plr\<lparr>coordinator := (coordinator plr)\<lparr>lineState := LineStateStopped\<rparr>\<rparr>"

definition hasError :: "line \<Rightarrow> bool" where
  "hasError plr \<longleftrightarrow>
     (c_formingMachine (coordinator plr) \<noteq> None
        \<and> state (base_f (formingMachine plr)) = StateUnplannedStop)
     \<or> (c_pickerRobot (coordinator plr) \<noteq> None
        \<and> state (base_p (pickerRobot plr)) = StateUnplannedStop)
     \<or> (c_spotWelder (coordinator plr) \<noteq> None
        \<and> state (base_w (spotWelder plr)) = StateUnplannedStop)"

definition updateLineState :: "line \<Rightarrow> line" where
  "updateLineState plr =
     (if hasError plr
      then plr\<lparr>coordinator := (coordinator plr)\<lparr>lineState := LineStateError\<rparr>\<rparr>
      else if lineState (coordinator plr) = LineStateError
      then plr\<lparr>coordinator := (coordinator plr)\<lparr>lineState := LineStateRunning\<rparr>\<rparr>
      else plr)"

definition track_time :: "duration \<Rightarrow> ProductionLineCoordinator \<Rightarrow> ProductionLineCoordinator" where
  "track_time elapsed c =
     (if lineState c = LineStateRunning then c\<lparr>uptime := uptime c + elapsed\<rparr>
      else if lineState c = LineStateError \<or> lineState c = LineStateStopped
      then c\<lparr>downtime := downtime c + elapsed\<rparr>
      else c)"

definition update_machines :: "tick_env \<Rightarrow> tick_env \<Rightarrow> tick_env \<Rightarrow> time \<Rightarrow> bool \<Rightarrow> line \<Rightarrow> line" where
  "update_machines envF envP envW now isBreakTime plr =
     (let plr1 = (if c_formingMachine (coordinator plr) \<noteq> None
                 then (case F_Update envF now isBreakTime (formingMachine plr, buffers plr) of
                         (fm, st) \<Rightarrow> plr\<lparr>formingMachine := fm, buffers := st\<rparr>)
                 else plr);
          plr2 = (if c_pickerRobot (coordinator plr1) \<noteq> None
                 then (case P_Update (runtimeConfig plr1) envP now isBreakTime
                              (pickerRobot plr1, buffers plr1) of
                         (pr, st) \<Rightarrow> plr1\<lparr>pickerRobot := pr, buffers := st\<rparr>)
                 else plr1)
      in if c_spotWelder (coordinator plr2) \<noteq> None
         then (case S_Update envW now isBreakTime (spotWelder plr2, buffers plr2) of
                 (sw, st) \<Rightarrow> plr2\<lparr>spotWelder := sw, buffers := st\<rparr>)
         else plr2)"

definition updateCounters :: "line \<Rightarrow> line" where
  "updateCounters plr =
     (let c = coordinator plr;
          c1 = (if c_spotWelder c \<noteq> None
                then (case GetCounters (base_w (spotWelder plr)) of
                        (good, scrap) \<Rightarrow> c\<lparr>weldingCompleted := good, totalPartsCompleted := good,
                                            totalPartsScrap := scrap\<rparr>)
                else c);
          c2 = (if c_pickerRobot c1 \<noteq> None
                then c1\<lparr>pickingCompleted := fst (GetCounters (base_p (pickerRobot plr)))\<rparr>
                else c1);
          c3 = (if c_formingMachine c2 \<noteq> None
                then (case GetCounters (base_f (formingMachine plr)) of
                        (good, _) \<Rightarrow> c2\<lparr>formingCompleted := good, totalPartsStarted := good\<rparr>)
                else c2)
      in plr\<lparr>coordinator := c3\<rparr>)"

definition note_error ::
  "machine_ptr \<Rightarrow> BaseMachine \<Rightarrow> string \<Rightarrow> ProductionLineCoordinator \<Rightarrow> ProductionLineCoordinator" where
  "note_error p bm machineName c =
     (case (p, CurrentError bm) of
        (Some _, Some err) \<Rightarrow>
          c\<lparr>activeErrors := activeErrors c + 1, lastErrorCode := Code err,
            lastErrorMachine := machineName\<rparr>
      | _ \<Rightarrow> c)"

definition updateErrorTracking :: "line \<Rightarrow> line" where
  "updateErrorTracking plr =
     (let c = (coordinator plr)\<lparr>activeErrors := 0\<rparr>;
          c1 = note_error (c_formingMachine c) (base_f (formingMachine plr))
                 (FormingMachineName (config_c c)) c;
          c2 = note_error (c_pickerRobot c1) (base_p (pickerRobot plr))
                 (PickerRobotName (config_c c1)) c1;
          c3 = note_error (c_spotWelder c2) (base_w (spotWelder plr))
                 (SpotWelderName (config_c c2)) c2
      in plr\<lparr>coordinator := c3\<rparr>)"

text \<open>\<open>coordinatePartFlow\<close> moves nothing: it returns after its \<open>nil\<close> checks.\<close>

definition coordinatePartFlow :: "time \<Rightarrow> line \<Rightarrow> line" where
  "coordinatePartFlow now plr = plr"

definition C_Update :: "tick_env \<Rightarrow> tick_env \<Rightarrow> tick_env \<Rightarrow> time \<Rightarrow> bool \<Rightarrow> line \<Rightarrow> line" where
  "C_Update envF envP envW now isBreakTime plr =
     (let elapsed = now - lastUpdate (coordinator plr);
          plr1 = updateLineState (plr\<lparr>coordinator := (coordinator plr)\<lparr>lastUpdate := now\<rparr>\<rparr>);
          plr2 = plr1\<lparr>coordinator := track_time elapsed (coordinator plr1)\<rparr>;
          plr3 = update_machines envF envP envW now isBreakTime plr2
      in updateErrorTracking (updateCounters (coordinatePartFlow now plr3)))"

definition SetOrder :: "ProductionOrder ptr \<Rightarrow> line \<Rightarrow> line" where
  "SetOrder order plr =
     (let plr1 = plr\<lparr>coordinator := (coordinator plr)\<lparr>currentOrder := order\<rparr>\<rparr>
      in case (c_formingMachine (coordinator plr1), order) of
           (Some _, Some ord) \<Rightarrow>
             plr1\<lparr>formingMachine := (formingMachine plr1)
                    \<lparr>base_f := AddOrder ord (base_f (formingMachine plr1))\<rparr>\<rparr>
         | _ \<Rightarrow> plr1)"

definition GetLineState :: "line \<Rightarrow> LineState" where
  "GetLineState plr = lineState (coordinator plr)"

text \<open>Go's integer division truncates towards zero.\<close>

definition go_quot :: "int \<Rightarrow> int \<Rightarrow> int" where
  "go_quot a b = (if 0 \<le> a then a div b else - ((- a) div b))"

text \<open>
  \<open>NewProductionLineRunner\<close> in two steps: \<open>runner_machines\<close> creates the runtime
  configuration, the three machines and the coordinator; the runner then calls
  \<open>SetMachines\<close> and wires the picker itself.
\<close>

definition base_machine_config :: "Config \<Rightarrow> MachineConfig" where
  "base_machine_config cfg =
     \<lparr>Name_mc = [], CycleTime = CycleTime_cfg cfg, SetupTime = SetupTime_cfg cfg,
      ScrapRate = ScrapRate_cfg cfg, ErrorRate = ErrorRate_cfg cfg,
      PublishInterval = PublishInterval_cfg cfg, Runtime = Some TheRuntimeConfig\<rparr>"

definition runner_machines :: "time \<Rightarrow> Config \<Rightarrow> line option" where
  "runner_machines clock cfg =
     (let runtimeCfg = NewRuntimeConfig cfg;
          baseMachineConfig = base_machine_config cfg
      in case NewFormingMachine clock ''FormingMachine'' baseMachineConfig DefaultFormingConfig
                empty_store of
           None \<Rightarrow> None
         | Some (fm, st1) \<Rightarrow>
           (let pickerMachineConfig = baseMachineConfig\<lparr>CycleTime := go_quot (CycleTime_cfg cfg) 3\<rparr>;
                pr = NewPickerRobot clock ''PickerRobot'' pickerMachineConfig DefaultPickerConfig
            in case NewSpotWelder clock ''SpotWelder'' baseMachineConfig DefaultSpotWelderConfig st1 of
                 None \<Rightarrow> None
               | Some (sw, st2) \<Rightarrow>
                 (let coordConfig = DefaultLineConfig\<lparr>LineName := SimulatorName cfg\<rparr>
                  in Some \<lparr>runtimeConfig = runtimeCfg, formingMachine = fm, pickerRobot = pr,
                            spotWelder = sw, coordinator = NewProductionLineCoordinator coordConfig,
                            buffers = st2\<rparr>)))"

definition NewProductionLineRunner :: "time \<Rightarrow> Config \<Rightarrow> line option" where
  "NewProductionLineRunner clock cfg =
     (case runner_machines clock cfg of
        None \<Rightarrow> None
      | Some plr \<Rightarrow>
        (case SetMachines (Some ()) (Some ()) (Some ()) plr of
           None \<Rightarrow> None
         | Some plr1 \<Rightarrow>
           (let plr2 = plr1\<lparr>pickerRobot := SetOutputBuffer (Some (GetInputBuffer (spotWelder plr1)))
                                               (pickerRobot plr1)\<rparr>
            in Some (plr2\<lparr>pickerRobot := SetInputBuffer (Some (GetOutputBuffer (formingMachine plr2)))
                                             (pickerRobot plr2)\<rparr>))))"

definition PLR_Update :: "tick_env \<Rightarrow> tick_env \<Rightarrow> tick_env \<Rightarrow> time \<Rightarrow> bool \<Rightarrow> line \<Rightarrow> line" where
  "PLR_Update envF envP envW now isBreakTime plr = C_Update envF envP envW now isBreakTime plr"

definition PLR_AddOrder :: "ProductionOrder ptr \<Rightarrow> line \<Rightarrow> line" where
  "PLR_AddOrder order plr = SetOrder order plr"

subsection \<open>Fixtures: a forming machine run on its own\<close>

text \<open>
  A forming machine alone, ticked once a second with no break and with random draws that
  trigger neither an error nor scrap: nobody takes parts from its output buffer. The
  configuration has a 20 s cycle and 5 s of setup.
\<close>

definition fixture_env :: "time \<Rightarrow> tick_env" where
  "fixture_env t = \<lparr>wallclock = t, nowDate = ''2026-01-12'', errU = 1 / 2, errPick = 0,
                     durU = 0, scrapU = 1 / 2\<rparr>"

definition fixture_forming_config :: MachineConfig where
  "fixture_forming_config =
     \<lparr>Name_mc = [], CycleTime = 20 * second, SetupTime = 5 * second, ScrapRate = 3 / 100,
      ErrorRate = 2 / 100, PublishInterval = second, Runtime = Some TheRuntimeConfig\<rparr>"

definition fixture_order :: "int \<Rightarrow> ProductionOrder" where
  "fixture_order q =
     \<lparr>OrderID = ''LN-2026-01001'', PartNumber = ''RAIL-ASM-A01'', Quantity = q,
      QuantityCompleted = 0, QuantityScrap = 0, Status = OrderStatusQueued, StartedAt = 0\<rparr>"

definition forming_fresh :: "int \<Rightarrow> FormingMachine \<times> store" where
  "forming_fresh q =
     (case the (NewFormingMachine 0 ''FormingMachine'' fixture_forming_config DefaultFormingConfig
                  empty_store) of
        (fm, st) \<Rightarrow> (fm\<lparr>base_f := AddOrder (fixture_order q) (base_f fm)\<rparr>, st))"

fun forming_ticks :: "nat list \<Rightarrow> FormingMachine \<times> store \<Rightarrow> FormingMachine \<times> store" where
  "forming_ticks [] fs = fs"
| "forming_ticks (t # ts) fs =
     forming_ticks ts (F_Update (fixture_env (int t * second)) (int t * second) False fs)"

definition order_counts :: "FormingMachine \<times> store \<Rightarrow> (int \<times> int \<times> int \<times> OrderStatus) option" where
  "order_counts fs =
     map_option (\<lambda>ord. (Quantity ord, QuantityCompleted ord, QuantityScrap ord, Status ord))
       (CurrentOrder (base_f (fst fs)))"

text \<open>After 120 s the buffer holds 5 parts and the sixth cycle has reached \<open>Eject\<close>.\<close>

definition forming_stalled :: "FormingMachine \<times> store" where
  "forming_stalled = forming_ticks [1..<121] (forming_fresh 50)"

definition consumer_pops :: "FormingMachine \<times> store \<Rightarrow> FormingMachine \<times> store" where
  "consumer_pops fs = (fst fs, snd (Pop_at (OutputBuffer (formState (fst fs))) (snd fs)))"

definition out_queue :: "FormingMachine \<times> store \<Rightarrow> Part ptr list" where
  "out_queue fs = Queue (cells (snd fs) (OutputBuffer (formState (fst fs))))"

definition fixture_scrap_env :: "time \<Rightarrow> tick_env" where
  "fixture_scrap_env t = (fixture_env t)\<lparr>scrapU := 1 / 100\<rparr>"

subsection \<open>Fixtures: the line of the runner\<close>

text \<open>
  The line as \<open>NewProductionLineRunner\<close> builds it from a configuration with a 30 s cycle,
  and the same machines after \<open>SetMachines\<close> alone.
\<close>

definition fixture_config :: Config where
  "fixture_config =
     \<lparr>SimulatorName = ''Line-01'', PublishInterval_cfg = second, CycleTime_cfg = 30 * second,
      SetupTime_cfg = 5 * second, ScrapRate_cfg = 3 / 100, ErrorRate_cfg = 2 / 100\<rparr>"

definition fixture_line :: line where
  "fixture_line = the (NewProductionLineRunner 0 fixture_config)"

definition fixture_unwired :: line where
  "fixture_unwired =
     the (SetMachines (Some ()) (Some ()) (Some ()) (the (runner_machines 0 fixture_config)))"

definition fixture_part :: "string \<Rightarrow> Part" where
  "fixture_part pid =
     \<lparr>ID = pid, PartOrderID = ''LN-2026-01001'', PStatus = PartStatusAwaitingPickup,
      Location = ''FormingMachine'', CreatedAt = 0, FormingComplete = 0, PickingComplete = 0,
      WeldingComplete = 0, FormingMachineID = ''FormingMachine'', PickerRobotID = [],
      SpotWelderID = [], IsScrap = False, ScrapReason = []\<rparr>"

definition fixture_waiting :: "Part \<Rightarrow> Part" where
  "fixture_waiting p = p\<lparr>PStatus := PartStatusAwaitingWelding, PickerRobotID := ''PickerRobot''\<rparr>"

text \<open>The picker of the line, with one part waiting at the forming machine and three
  parts waiting in the welder's input buffer, which is then full.\<close>

definition picker_fresh :: "PickerRobot \<times> store" where
  "picker_fresh =
     (pickerRobot fixture_line,
      snd (Push_at 1 (Some (fixture_waiting (fixture_part ''PART-2026-01-12-0003'')))
       (snd (Push_at 1 (Some (fixture_waiting (fixture_part ''PART-2026-01-12-0002'')))
        (snd (Push_at 1 (Some (fixture_waiting (fixture_part ''PART-2026-01-12-0001'')))
         (snd (Push_at 0 (Some (fixture_part ''PART-2026-01-12-0004''))
           (buffers fixture_line)))))))))"

fun picker_ticks :: "nat list \<Rightarrow> PickerRobot \<times> store \<Rightarrow> PickerRobot \<times> store" where
  "picker_ticks [] ps = ps"
| "picker_ticks (t # ts) ps =
     picker_ticks ts
       (P_Update (runtimeConfig fixture_line) (fixture_env (int t * second)) (int t * second) False ps)"

definition picker_view ::
  "PickerRobot \<times> store \<Rightarrow> MachineState \<times> PickerPhase \<times> string \<times> bool \<times> string list \<times> string list" where
  "picker_view ps =
     (state (base_p (fst ps)), Phase_p (pickerState (fst ps)), HeldPartID (pickerState (fst ps)),
      HeldPart (pickerState (fst ps)) \<noteq> None,
      map (\<lambda>p. case p of None \<Rightarrow> [] | Some part \<Rightarrow> ID part) (Queue (cells (snd ps) 0)),
      map (\<lambda>p. case p of None \<Rightarrow> [] | Some part \<Rightarrow> ID part) (Queue (cells (snd ps) 1)))"

text \<open>The line with one order, started, ticked once a second.\<close>

definition fixture_started :: line where
  "fixture_started = C_Start 0 (PLR_AddOrder (Some (fixture_order 50)) fixture_line)"

definition fixture_error_env :: "time \<Rightarrow> tick_env" where
  "fixture_error_env t = (fixture_env t)\<lparr>errU := 0, errPick := 4\<rparr>"

fun line_ticks :: "nat list \<Rightarrow> line \<Rightarrow> line" where
  "line_ticks [] plr = plr"
| "line_ticks (t # ts) plr =
     line_ticks ts
       (PLR_Update (fixture_env (int t * second)) (fixture_env (int t * second))
          (fixture_env (int t * second)) (int t * second) False plr)"

text \<open>At 10 s the forming machine, in phase \<open>Form\<close>, draws an error (F005, 15 s).\<close>

definition line_at_error :: line where
  "line_at_error =
     PLR_Update (fixture_error_env (10 * second)) (fixture_env (10 * second))
       (fixture_env (10 * second)) (10 * second) False (line_ticks [1..<10] fixture_started)"

text \<open>
  The error ends at 25 s; the update at 26 s brings the forming machine back to Idle.
  The other two lines: one that was never started, and one ticked during a break.
\<close>

definition line_at_recovery :: line where
  "line_at_recovery = line_ticks [11..<27] line_at_error"

definition line_never_started :: line where
  "line_never_started =
     PLR_Update (fixture_env second) (fixture_env second) (fixture_env second) second False
       (PLR_AddOrder (Some (fixture_order 50)) fixture_line)"

definition line_at_break :: line where
  "line_at_break =
     PLR_Update (fixture_env (7 * second)) (fixture_env (7 * second)) (fixture_env (7 * second))
       (7 * second) True (line_ticks [1..<7] fixture_started)"

definition line_view :: "line \<Rightarrow> MachineState \<times> MachineState \<times> MachineState \<times> LineState" where
  "line_view plr =
     (state (base_f (formingMachine plr)), state (base_p (pickerRobot plr)),
      state (base_w (spotWelder plr)), lineState (coordinator plr))"

section \<open>Verified properties\<close>

subsection \<open>PartBuffer\<close>

lemma do_call_ok:
  "buf_ok pb \<Longrightarrow> c \<noteq> CallPush None \<Longrightarrow> do_call c pb = (r, pb') \<Longrightarrow>
     buf_ok pb' \<and> MaxCapacity pb' = MaxCapacity pb"
  by (cases c) (auto simp: buf_ok_def Push_def Pop_def split: if_splits dest: list.set_sel(2))

lemma do_call_fifo:
  "buf_ok pb \<Longrightarrow> do_call c pb = (r, pb') \<Longrightarrow>
     Queue pb @ accepted [(c, r)] = handed_out [(c, r)] @ Queue pb'"
  apply (cases c)
    apply (auto simp: buf_ok_def Push_def Pop_def split: if_splits)
  apply (cases "Queue pb"; simp)
  apply (case_tac a; simp)
  done

lemma accepted_Cons: "accepted (x # tr) = accepted [x] @ accepted tr"
  by (cases "(x # tr)" rule: accepted.cases) auto

lemma handed_out_Cons: "handed_out (x # tr) = handed_out [x] @ handed_out tr"
  by (cases "(x # tr)" rule: handed_out.cases) auto

lemma run_calls_inv:
  "buf_ok pb \<Longrightarrow> CallPush None \<notin> set cs \<Longrightarrow> run_calls cs pb = (tr, pb') \<Longrightarrow>
     buf_ok pb' \<and> MaxCapacity pb' = MaxCapacity pb
     \<and> Queue pb @ accepted tr = handed_out tr @ Queue pb'"
proof (induction cs arbitrary: pb tr pb')
  case Nil
  then show ?case by simp
next
  case (Cons c cs)
  obtain r pb1 where step: "do_call c pb = (r, pb1)" by (cases "do_call c pb")
  obtain tr1 pb2 where rest: "run_calls cs pb1 = (tr1, pb2)" by (cases "run_calls cs pb1")
  from Cons.prems(3) step rest have tr: "tr = (c, r) # tr1" and pb': "pb' = pb2" by auto
  from Cons.prems(2) have c: "c \<noteq> CallPush None" and cs: "CallPush None \<notin> set cs" by auto
  from do_call_ok[OF Cons.prems(1) c step] have ok1: "buf_ok pb1" and cap1: "MaxCapacity pb1 = MaxCapacity pb" by auto
  from Cons.IH[OF ok1 cs rest] have ok2: "buf_ok pb2" and cap2: "MaxCapacity pb2 = MaxCapacity pb1"
    and fifo2: "Queue pb1 @ accepted tr1 = handed_out tr1 @ Queue pb2" by auto
  from do_call_fifo[OF Cons.prems(1) step]
  have fifo1: "Queue pb @ accepted [(c, r)] = handed_out [(c, r)] @ Queue pb1" .
  have "Queue pb @ accepted tr = (Queue pb @ accepted [(c, r)]) @ accepted tr1"
    unfolding tr by (subst accepted_Cons) simp
  also have "\<dots> = handed_out [(c, r)] @ (Queue pb1 @ accepted tr1)" using fifo1 by simp
  also have "\<dots> = handed_out [(c, r)] @ handed_out tr1 @ Queue pb2" using fifo2 by simp
  also have "\<dots> = handed_out tr @ Queue pb2" unfolding tr by (subst (2) handed_out_Cons) simp
  finally show ?case using ok2 cap1 cap2 pb' by simp
qed

text \<open>
  Claim C7. A buffer created with capacity \<open>cap\<close> and driven by any sequence of
  Push/Pop/Peek calls on parts (non-nil pointers) always holds between 0 and \<open>cap\<close>
  parts; Push is refused exactly when the count equals \<open>cap\<close> (the buffer is then left
  as it was, otherwise the part is appended); Pop misses exactly on the empty buffer and
  otherwise hands out the oldest accepted part not handed out before: the accepted parts
  are, in order, the parts handed out so far followed by the queue.
\<close>

theorem part_buffer_fifo_bounded:
  assumes new: "NewPartBuffer cap = Some b0"
    and parts: "CallPush None \<notin> set cs"
    and run: "run_calls cs b0 = (tr, b)"
  shows "0 \<le> Count b \<and> Count b \<le> cap
    \<and> (fst (Push (Some p) b) = False \<longleftrightarrow> Count b = cap)
    \<and> (Count b = cap \<longrightarrow> snd (Push (Some p) b) = b)
    \<and> (Count b \<noteq> cap \<longrightarrow> snd (Push (Some p) b) = b\<lparr>Queue := Queue b @ [Some p]\<rparr>)
    \<and> (fst (Pop b) = None \<longleftrightarrow> Count b = 0)
    \<and> (Count b = 0 \<longrightarrow> snd (Pop b) = b)
    \<and> accepted tr = handed_out tr @ Queue b
    \<and> (Count b \<noteq> 0 \<longrightarrow> fst (Pop b) = accepted tr ! length (handed_out tr)
                          \<and> snd (Pop b) = b\<lparr>Queue := tl (Queue b)\<rparr>)
    \<and> Peek b = fst (Pop b)"
proof -
  from new have b0: "b0 = \<lparr>MaxCapacity = cap, Queue = []\<rparr>" and cap: "0 \<le> cap"
    by (auto simp: NewPartBuffer_def split: if_splits)
  have ok0: "buf_ok b0" using b0 cap by (simp add: buf_ok_def)
  from run_calls_inv[OF ok0 parts run]
  have ok: "buf_ok b" and mc: "MaxCapacity b = cap" and fifo: "accepted tr = handed_out tr @ Queue b"
    using b0 by auto
  have nonnil: "Queue b \<noteq> [] \<Longrightarrow> hd (Queue b) \<noteq> None"
    using ok by (cases "Queue b"; cases "hd (Queue b)") (auto simp: buf_ok_def)
  have nth: "Queue b \<noteq> [] \<Longrightarrow> accepted tr ! length (handed_out tr) = hd (Queue b)"
    unfolding fifo by (simp add: nth_append hd_conv_nth)
  have cnt: "Count b = int (length (Queue b))" by (simp add: Count_def)
  have bounds: "0 \<le> Count b \<and> Count b \<le> cap" using ok mc by (simp add: buf_ok_def Count_def)
  have push: "(fst (Push (Some p) b) = False \<longleftrightarrow> Count b = cap)
    \<and> (Count b = cap \<longrightarrow> snd (Push (Some p) b) = b)
    \<and> (Count b \<noteq> cap \<longrightarrow> snd (Push (Some p) b) = b\<lparr>Queue := Queue b @ [Some p]\<rparr>)"
    using bounds mc by (auto simp: Push_def Count_def)
  have pop_empty: "(fst (Pop b) = None \<longleftrightarrow> Count b = 0) \<and> (Count b = 0 \<longrightarrow> snd (Pop b) = b)"
    using nonnil by (auto simp: Pop_def Count_def)
  have pop_some: "Count b \<noteq> 0 \<longrightarrow> fst (Pop b) = accepted tr ! length (handed_out tr)
                          \<and> snd (Pop b) = b\<lparr>Queue := tl (Queue b)\<rparr>"
    using nth by (auto simp: Pop_def Count_def)
  have peek: "Peek b = fst (Pop b)" by (simp add: Peek_def Pop_def)
  show ?thesis
    using bounds push pop_empty fifo pop_some peek by blast
qed

theorem part_buffer_fifo_bounded_witness:
  "NewPartBuffer 2 = Some \<lparr>MaxCapacity = 2, Queue = ([] :: nat ptr list)\<rparr>
   \<and> CallPush None \<notin> set [CallPush (Some (7::nat)), CallPush (Some 8), CallPush (Some 9), CallPop]
   \<and> run_calls [CallPush (Some (7::nat)), CallPush (Some 8), CallPush (Some 9), CallPop]
        \<lparr>MaxCapacity = 2, Queue = []\<rparr>
      = ([(CallPush (Some 7), RetPush True), (CallPush (Some 8), RetPush True),
          (CallPush (Some 9), RetPush False), (CallPop, RetPop (Some 7))],
         \<lparr>MaxCapacity = 2, Queue = [Some 8]\<rparr>)
   \<and> Count \<lparr>MaxCapacity = 2, Queue = [Some (8::nat)]\<rparr> \<le> 2
   \<and> fst (Pop \<lparr>MaxCapacity = 2, Queue = [Some (8::nat)]\<rparr>) = Some 8"
proof -
  have h1: "NewPartBuffer 2 = Some \<lparr>MaxCapacity = 2, Queue = ([] :: nat ptr list)\<rparr>"
    by (simp add: NewPartBuffer_def)
  have h2: "CallPush None \<notin> set [CallPush (Some (7::nat)), CallPush (Some 8), CallPush (Some 9), CallPop]"
    by simp
  have h3: "run_calls [CallPush (Some (7::nat)), CallPush (Some 8), CallPush (Some 9), CallPop]
        \<lparr>MaxCapacity = 2, Queue = []\<rparr>
      = ([(CallPush (Some 7), RetPush True), (CallPush (Some 8), RetPush True),
          (CallPush (Some 9), RetPush False), (CallPop, RetPop (Some 7))],
         \<lparr>MaxCapacity = 2, Queue = [Some 8]\<rparr>)"
    by (simp add: Push_def Pop_def)
  from part_buffer_fifo_bounded[OF h1 h2 h3, of 0] h1 h2 h3 show ?thesis
    by (simp add: Count_def Pop_def)
qed

subsection \<open>BaseMachine.TransitionTo\<close>

text \<open>
  Claim C8. \<open>TransitionTo s\<close> on a machine already in state \<open>s\<close> changes nothing: state,
  \<open>StateEnteredAt\<close> and the callback trace stay as they are. From any other state it sets
  the state to \<open>s\<close>, stamps \<open>StateEnteredAt\<close> with the clock, invokes the registered
  \<open>OnStateChange\<close> callback exactly once, with the old state and \<open>s\<close> (a \<open>nil\<close> callback is
  not invoked), and touches no other field.
\<close>

theorem transition_to_idempotent:
  "(state bm = s \<longrightarrow> TransitionTo clock s bm = bm)
   \<and> (state bm \<noteq> s \<longrightarrow>
        state (TransitionTo clock s bm) = s
        \<and> StateEnteredAt (TransitionTo clock s bm) = clock
        \<and> fired (TransitionTo clock s bm) =
            fired bm @ (if OnStateChange (callbacks bm) then [StateChangeFired (state bm) s] else [])
        \<and> TransitionTo clock s bm =
            bm\<lparr>state := s, StateEnteredAt := clock, fired := fired (TransitionTo clock s bm)\<rparr>)"
  by (simp add: TransitionTo_def Let_def)

theorem transition_to_idempotent_witness:
  "state (TransitionTo 5 StateSetup (SetCallbacks fixture_callbacks (NewBaseMachine 0 fixture_machine_config))) \<noteq> StateRunning
   \<and> fired (TransitionTo 9 StateRunning (TransitionTo 5 StateSetup (SetCallbacks fixture_callbacks (NewBaseMachine 0 fixture_machine_config))))
       = [StateChangeFired StateIdle StateSetup, StateChangeFired StateSetup StateRunning]
   \<and> state (TransitionTo 5 StateSetup (SetCallbacks fixture_callbacks (NewBaseMachine 0 fixture_machine_config))) = StateSetup
   \<and> TransitionTo 9 StateSetup (TransitionTo 5 StateSetup (SetCallbacks fixture_callbacks (NewBaseMachine 0 fixture_machine_config)))
       = TransitionTo 5 StateSetup (SetCallbacks fixture_callbacks (NewBaseMachine 0 fixture_machine_config))"
proof -
  let ?m0 = "SetCallbacks fixture_callbacks (NewBaseMachine 0 fixture_machine_config)"
  let ?m1 = "TransitionTo 5 StateSetup ?m0"
  have s0: "state ?m0 = StateIdle" "fired ?m0 = []" "OnStateChange (callbacks ?m0)"
    by (simp_all add: SetCallbacks_def NewBaseMachine_def fixture_callbacks_def no_callbacks_def)
  have a: "state ?m1 = StateSetup \<and> fired ?m1 = [StateChangeFired StateIdle StateSetup]"
    using transition_to_idempotent[of ?m0 StateSetup 5] s0 by simp
  have cb1: "OnStateChange (callbacks ?m1)"
    by (simp add: TransitionTo_def SetCallbacks_def NewBaseMachine_def fixture_callbacks_def no_callbacks_def)
  show ?thesis
    using transition_to_idempotent[of ?m1 StateRunning 9] transition_to_idempotent[of ?m1 StateSetup 9] a cb1
    by simp
qed

subsection \<open>RuntimeConfig setters\<close>



subsection \<open>POST /api/config\<close>



subsection \<open>Forming machine: order counters and the blocking eject\<close>

lemma F_Update_Running:
  "state (base_f fm) = StateRunning \<Longrightarrow>
     F_Update env now b (fm, st) = F_updateRunning env now b (fm, st)"
  by (simp add: F_Update_def)

lemma F_eject_no_error:
  "Phase_f (formState fm) = FormingPhaseEject \<Longrightarrow> \<not> F_shouldTriggerError env fm"
  by (simp add: F_shouldTriggerError_def)

lemma F_running_break:
  "state (base_f fm) = StateRunning \<Longrightarrow>
     F_Update env now True (fm, st) =
       (fm\<lparr>base_f := TransitionTo (wallclock env) StatePlannedStop (base_f fm),
            formState := (formState fm)\<lparr>Phase_f := FormingPhaseIdle\<rparr>\<rparr>, st)"
  by (simp add: F_Update_Running F_updateRunning_def Let_def)

lemma F_eject_full:
  "state (base_f fm) = StateRunning \<Longrightarrow> Phase_f (formState fm) = FormingPhaseEject \<Longrightarrow>
   IsFull (cells st (OutputBuffer (formState fm))) \<Longrightarrow>
     F_Update env now False (fm, st) = (fm, st)"
  by (simp add: F_Update_Running F_updateRunning_def F_eject_no_error)

lemma F_eject_wait:
  "state (base_f fm) = StateRunning \<Longrightarrow> Phase_f (formState fm) = FormingPhaseEject \<Longrightarrow>
   ElapsedInCycle (wallclock env) (base_f fm) < F_ejectEnd fm \<Longrightarrow>
     F_Update env now False (fm, st) = (fm, st)"
  by (simp add: F_Update_Running F_updateRunning_def F_eject_no_error Let_def)

lemma F_eject_go:
  "state (base_f fm) = StateRunning \<Longrightarrow> Phase_f (formState fm) = FormingPhaseEject \<Longrightarrow>
   \<not> IsFull (cells st (OutputBuffer (formState fm))) \<Longrightarrow>
   F_ejectEnd fm \<le> ElapsedInCycle (wallclock env) (base_f fm) \<Longrightarrow>
     F_Update env now False (fm, st) =
       (F_SetPhase (wallclock env) FormingPhaseRaise (fst (F_ejectPart env now (fm, st))),
        snd (F_ejectPart env now (fm, st)))"
  by (simp add: F_Update_Running F_updateRunning_def F_eject_no_error Let_def split: prod.splits)

lemma F_ejectPart_scrap:
  "Bool_noise (scrapU env) (ScrapRate (config (base_f fm))) \<Longrightarrow>
     snd (F_ejectPart env now (fm, st)) = st
     \<and> formState (fst (F_ejectPart env now (fm, st))) = formState fm
     \<and> state (base_f (fst (F_ejectPart env now (fm, st)))) = state (base_f fm)"
  by (simp add: F_ejectPart_def Let_def CompleteCycle_def)

lemma F_ejectPart_good:
  assumes "\<not> Bool_noise (scrapU env) (ScrapRate (config (base_f fm)))"
    and "\<not> IsFull (cells st (OutputBuffer (formState fm)))"
  shows "snd (F_ejectPart env now (fm, st)) =
               st\<lparr>cells := (cells st)(OutputBuffer (formState fm) :=
                    (cells st (OutputBuffer (formState fm)))
                      \<lparr>Queue := Queue (cells st (OutputBuffer (formState fm)))
                                  @ [Some (F_new_part now fm)]\<rparr>)\<rparr>"
    and "formState (fst (F_ejectPart env now (fm, st))) = formState fm"
    and "state (base_f (fst (F_ejectPart env now (fm, st)))) = state (base_f fm)"
  using assms
  by (auto simp: F_ejectPart_def Let_def CompleteCycle_def Push_at_def Push_def IsFull_def
      split: prod.splits)

lemma F_ejectPart_counts_twice:
  assumes "CurrentOrder (base_f fm) = Some ord"
    and "\<not> IsFull (cells st (OutputBuffer (formState fm)))"
  shows "\<exists>ord'. CurrentOrder (base_f (fst (F_ejectPart env now (fm, st)))) = Some ord'
           \<and> Quantity ord' = Quantity ord
           \<and> QuantityCompleted ord' + QuantityScrap ord'
               = QuantityCompleted ord + QuantityScrap ord + 2"
  using assms
  by (auto simp: F_ejectPart_def Let_def CompleteCycle_def Push_at_def Push_def IsFull_def
      split: prod.splits)

text \<open>
  Claim C2 (the code departs from it). The order counters are to satisfy
  \<open>QuantityCompleted + QuantityScrap \<le> Quantity\<close>, one forming cycle adding exactly one.
  On the code, \<open>ejectPart\<close> increments the order's counter and \<open>CompleteCycle\<close>
  increments it again: an order of quantity 1 has counters 0 before the tick that ejects
  its first part and \<open>QuantityCompleted = 2\<close> after it, still in progress.
\<close>

theorem forming_order_counted_twice:
  "order_counts (forming_ticks [1..<22] (forming_fresh 1)) = Some (1, 0, 0, OrderStatusInProgress)
   \<and> order_counts (forming_ticks [1..<23] (forming_fresh 1)) = Some (1, 2, 0, OrderStatusInProgress)"
  by code_simp

text \<open>
  Claim C4, amended. For a forming machine that is Running in phase \<open>Eject\<close>: on a tick
  that is not a break, with the output buffer full, \<open>Update\<close> changes nothing (it stays
  in \<open>Eject\<close>, pushes nothing, scraps nothing); on a break tick it goes to PlannedStop
  with phase \<open>Idle\<close>, the buffer untouched; before the eject time of the cycle has
  elapsed it changes nothing either; and on a tick that is not a break, with room in the
  buffer and the eject time elapsed, it advances to \<open>Raise\<close>, having appended the part to
  the buffer unless the scrap draw rejected it.
\<close>

theorem forming_eject_stall:
  assumes run: "state (base_f fm) = StateRunning"
    and ej: "Phase_f (formState fm) = FormingPhaseEject"
  shows "(IsFull (cells st (OutputBuffer (formState fm))) \<longrightarrow>
            F_Update env now False (fm, st) = (fm, st))
    \<and> (state (base_f (fst (F_Update env now True (fm, st)))) = StatePlannedStop
        \<and> Phase_f (formState (fst (F_Update env now True (fm, st)))) = FormingPhaseIdle
        \<and> snd (F_Update env now True (fm, st)) = st)
    \<and> (ElapsedInCycle (wallclock env) (base_f fm) < F_ejectEnd fm \<longrightarrow>
            F_Update env now False (fm, st) = (fm, st))
    \<and> (\<not> IsFull (cells st (OutputBuffer (formState fm)))
        \<and> F_ejectEnd fm \<le> ElapsedInCycle (wallclock env) (base_f fm) \<longrightarrow>
            state (base_f (fst (F_Update env now False (fm, st)))) = StateRunning
            \<and> Phase_f (formState (fst (F_Update env now False (fm, st)))) = FormingPhaseRaise
            \<and> out_queue (F_Update env now False (fm, st)) =
                (if Bool_noise (scrapU env) (ScrapRate (config (base_f fm)))
                 then out_queue (fm, st)
                 else out_queue (fm, st) @ [Some (F_new_part now fm)]))"
proof -
  have full: "IsFull (cells st (OutputBuffer (formState fm))) \<longrightarrow>
            F_Update env now False (fm, st) = (fm, st)"
    using F_eject_full[OF run ej] by blast
  have brk: "state (base_f (fst (F_Update env now True (fm, st)))) = StatePlannedStop
        \<and> Phase_f (formState (fst (F_Update env now True (fm, st)))) = FormingPhaseIdle
        \<and> snd (F_Update env now True (fm, st)) = st"
    using run by (simp add: F_running_break TransitionTo_def Let_def)
  have wait: "ElapsedInCycle (wallclock env) (base_f fm) < F_ejectEnd fm \<longrightarrow>
            F_Update env now False (fm, st) = (fm, st)"
    using F_eject_wait[OF run ej] by blast
  have go: "state (base_f (fst (F_Update env now False (fm, st)))) = StateRunning
            \<and> Phase_f (formState (fst (F_Update env now False (fm, st)))) = FormingPhaseRaise
            \<and> out_queue (F_Update env now False (fm, st)) =
                (if Bool_noise (scrapU env) (ScrapRate (config (base_f fm)))
                 then out_queue (fm, st)
                 else out_queue (fm, st) @ [Some (F_new_part now fm)])"
    if nf: "\<not> IsFull (cells st (OutputBuffer (formState fm)))"
      and t: "F_ejectEnd fm \<le> ElapsedInCycle (wallclock env) (base_f fm)"
  proof (cases "Bool_noise (scrapU env) (ScrapRate (config (base_f fm)))")
    case True
    from F_ejectPart_scrap[OF True, of now st] show ?thesis
      using True run by (simp add: F_eject_go[OF run ej nf t] F_SetPhase_def out_queue_def)
  next
    case False
    from F_ejectPart_good[OF False nf, of now] show ?thesis
      using False run by (simp add: F_eject_go[OF run ej nf t] F_SetPhase_def out_queue_def)
  qed
  show ?thesis using full brk wait go by blast
qed

lemma stalled_obs:
  "(case forming_stalled of (fm, st) \<Rightarrow>
      (state (base_f fm), Phase_f (formState fm), OutputBuffer (formState fm),
       CycleStartedAt (base_f fm), config (base_f fm), formConfig fm,
       MaxCapacity (cells st 0), length (Queue (cells st 0))))
   = (StateRunning, FormingPhaseEject, 0, 106000000000, fixture_forming_config,
      DefaultFormingConfig, 5, 5)"
  unfolding forming_stalled_def by code_simp

lemma stalled_facts:
  "state (base_f (fst forming_stalled)) = StateRunning"
  "Phase_f (formState (fst forming_stalled)) = FormingPhaseEject"
  "OutputBuffer (formState (fst forming_stalled)) = 0"
  "CycleStartedAt (base_f (fst forming_stalled)) = 106000000000"
  "config (base_f (fst forming_stalled)) = fixture_forming_config"
  "formConfig (fst forming_stalled) = DefaultFormingConfig"
  "MaxCapacity (cells (snd forming_stalled) 0) = 5"
  "length (Queue (cells (snd forming_stalled) 0)) = 5"
  using stalled_obs by (simp_all add: case_prod_beta)

lemma stalled_ejectEnd: "F_ejectEnd (fst forming_stalled) = 16000000000"
  by (simp add: F_ejectEnd_def F_holdEnd_def F_formEnd_def F_loadEnd_def stalled_facts
      fixture_forming_config_def DefaultFormingConfig_def second_def to_Duration_def)

lemma stalled_pair: "forming_stalled = (fst forming_stalled, snd forming_stalled)"
  by simp

lemma stalled_full: "IsFull (cells (snd forming_stalled) 0)"
  by (simp add: IsFull_def stalled_facts)

lemma popped_facts:
  "fst (consumer_pops forming_stalled) = fst forming_stalled"
  "length (out_queue (consumer_pops forming_stalled)) = 4"
  "\<not> IsFull (cells (snd (consumer_pops forming_stalled)) 0)"
  by (simp_all add: consumer_pops_def out_queue_def Pop_at_def Pop_def IsFull_def stalled_facts
      split: prod.splits)

lemma popped_pair:
  "consumer_pops forming_stalled = (fst forming_stalled, snd (consumer_pops forming_stalled))"
  by (simp add: consumer_pops_def)

text \<open>
  The claim as stated fails on the stalled machine of the fixture: a break tick takes it
  out of \<open>Eject\<close> while the buffer is full; after a consumer has popped one part, the
  next tick (15 s into the cycle, eject time 16 s) ejects nothing; and the tick after
  that, with a scrap draw, advances to \<open>Raise\<close> without pushing the part.
\<close>

theorem forming_eject_stall_counterexample:
  "state (base_f (fst forming_stalled)) = StateRunning
   \<and> Phase_f (formState (fst forming_stalled)) = FormingPhaseEject
   \<and> IsFull (cells (snd forming_stalled) (OutputBuffer (formState (fst forming_stalled))))
   \<and> Phase_f (formState (fst (F_Update (fixture_env 121000000000) 121000000000 True forming_stalled)))
       = FormingPhaseIdle
   \<and> length (out_queue (consumer_pops forming_stalled)) = 4
   \<and> F_Update (fixture_env 121000000000) 121000000000 False (consumer_pops forming_stalled)
       = consumer_pops forming_stalled
   \<and> Phase_f (formState (fst (F_Update (fixture_scrap_env 122000000000) 122000000000 False
                                  (consumer_pops forming_stalled)))) = FormingPhaseRaise
   \<and> length (out_queue (F_Update (fixture_scrap_env 122000000000) 122000000000 False
                           (consumer_pops forming_stalled))) = 4"
proof -
  let ?fm = "fst forming_stalled"
  let ?st = "snd forming_stalled"
  let ?st' = "snd (consumer_pops forming_stalled)"
  have run: "state (base_f ?fm) = StateRunning" and ej: "Phase_f (formState ?fm) = FormingPhaseEject"
    by (simp_all add: stalled_facts)
  have full: "IsFull (cells ?st (OutputBuffer (formState ?fm)))"
    using stalled_full by (simp add: stalled_facts)
  have brk: "Phase_f (formState (fst (F_Update (fixture_env 121000000000) 121000000000 True forming_stalled)))
       = FormingPhaseIdle"
    using F_running_break[OF run, of "fixture_env 121000000000" 121000000000 ?st] by simp
  have early: "ElapsedInCycle (wallclock (fixture_env 121000000000)) (base_f ?fm) < F_ejectEnd ?fm"
    by (simp add: ElapsedInCycle_def fixture_env_def stalled_facts stalled_ejectEnd)
  have wait: "F_Update (fixture_env 121000000000) 121000000000 False (consumer_pops forming_stalled)
       = consumer_pops forming_stalled"
    using F_eject_wait[OF run ej early, of 121000000000 ?st'] by (simp add: popped_pair[symmetric])
  have nf: "\<not> IsFull (cells ?st' (OutputBuffer (formState ?fm)))"
    using popped_facts(3) by (simp add: stalled_facts)
  have late: "F_ejectEnd ?fm \<le> ElapsedInCycle (wallclock (fixture_scrap_env 122000000000)) (base_f ?fm)"
    by (simp add: ElapsedInCycle_def fixture_scrap_env_def fixture_env_def stalled_facts stalled_ejectEnd)
  have scrap: "Bool_noise (scrapU (fixture_scrap_env 122000000000)) (ScrapRate (config (base_f ?fm)))"
    by (simp add: Bool_noise_def fixture_scrap_env_def fixture_env_def stalled_facts
        fixture_forming_config_def)
  have go: "F_Update (fixture_scrap_env 122000000000) 122000000000 False (consumer_pops forming_stalled)
      = (F_SetPhase (wallclock (fixture_scrap_env 122000000000)) FormingPhaseRaise
           (fst (F_ejectPart (fixture_scrap_env 122000000000) 122000000000 (?fm, ?st'))),
         snd (F_ejectPart (fixture_scrap_env 122000000000) 122000000000 (?fm, ?st')))"
    using F_eject_go[OF run ej nf late, of 122000000000] by (simp add: popped_pair[symmetric])
  have raise: "Phase_f (formState (fst (F_Update (fixture_scrap_env 122000000000) 122000000000 False
                                  (consumer_pops forming_stalled)))) = FormingPhaseRaise"
    by (simp add: go F_SetPhase_def)
  have same: "length (out_queue (F_Update (fixture_scrap_env 122000000000) 122000000000 False
                           (consumer_pops forming_stalled))) = 4"
    using F_ejectPart_scrap[OF scrap, of 122000000000 ?st'] popped_facts(2)
    by (simp add: go out_queue_def F_SetPhase_def popped_facts(1))
  show ?thesis using run ej full brk popped_facts(2) wait raise same by blast
qed

theorem forming_eject_stall_witness:
  "state (base_f (fst forming_stalled)) = StateRunning
   \<and> Phase_f (formState (fst forming_stalled)) = FormingPhaseEject
   \<and> IsFull (cells (snd forming_stalled) (OutputBuffer (formState (fst forming_stalled))))
   \<and> F_Update (fixture_env 121000000000) 121000000000 False forming_stalled = forming_stalled
   \<and> \<not> IsFull (cells (snd (consumer_pops forming_stalled)) (OutputBuffer (formState (fst forming_stalled))))
   \<and> F_ejectEnd (fst forming_stalled)
        \<le> ElapsedInCycle (wallclock (fixture_env 122000000000)) (base_f (fst forming_stalled))
   \<and> Phase_f (formState (fst (F_Update (fixture_env 122000000000) 122000000000 False
                                  (consumer_pops forming_stalled)))) = FormingPhaseRaise
   \<and> out_queue (F_Update (fixture_env 122000000000) 122000000000 False (consumer_pops forming_stalled))
       = out_queue (consumer_pops forming_stalled)
         @ [Some (F_new_part 122000000000 (fst forming_stalled))]"
proof -
  let ?fm = "fst forming_stalled"
  let ?st = "snd forming_stalled"
  let ?st' = "snd (consumer_pops forming_stalled)"
  have run: "state (base_f ?fm) = StateRunning" and ej: "Phase_f (formState ?fm) = FormingPhaseEject"
    by (simp_all add: stalled_facts)
  have full: "IsFull (cells ?st (OutputBuffer (formState ?fm)))"
    using stalled_full by (simp add: stalled_facts)
  have nf: "\<not> IsFull (cells ?st' (OutputBuffer (formState ?fm)))"
    using popped_facts(3) by (simp add: stalled_facts)
  have late: "F_ejectEnd ?fm \<le> ElapsedInCycle (wallclock (fixture_env 122000000000)) (base_f ?fm)"
    by (simp add: ElapsedInCycle_def fixture_env_def stalled_facts stalled_ejectEnd)
  have good: "\<not> Bool_noise (scrapU (fixture_env 122000000000)) (ScrapRate (config (base_f ?fm)))"
    by (simp add: Bool_noise_def fixture_env_def stalled_facts fixture_forming_config_def)
  have a: "F_Update (fixture_env 121000000000) 121000000000 False (?fm, ?st) = (?fm, ?st)"
    using forming_eject_stall[OF run ej, of ?st "fixture_env 121000000000" 121000000000] full by blast
  have b: "Phase_f (formState (fst (F_Update (fixture_env 122000000000) 122000000000 False (?fm, ?st'))))
             = FormingPhaseRaise
     \<and> out_queue (F_Update (fixture_env 122000000000) 122000000000 False (?fm, ?st'))
         = out_queue (?fm, ?st') @ [Some (F_new_part 122000000000 ?fm)]"
    using forming_eject_stall[OF run ej, of ?st' "fixture_env 122000000000" 122000000000] nf late good
    by simp
  show ?thesis using run ej full a b nf late
    by (simp add: popped_pair[symmetric])
qed

subsection \<open>Picker robot: release into a full buffer\<close>

text \<open>Whenever the release phase ends on a full output buffer, the held part is gone.\<close>

lemma P_release_drops_part:
  assumes run: "state (base_p pr) = StateRunning"
    and rel: "Phase_p (pickerState pr) = PhaseRelease"
    and held: "HeldPart (pickerState pr) = Some part"
    and hid: "HeldPartID (pickerState pr) \<noteq> []"
    and noerr: "\<not> P_shouldTriggerError rt env pr"
    and late: "P_releaseEnd rt pr \<le> ElapsedInCycle (wallclock env) (base_p pr)"
    and out: "outputBuffer pr = Some a"
    and full: "IsFull (cells st a)"
  shows "P_Update rt env now isBreakTime (pr, st) =
           (pr\<lparr>pickerState := (pickerState pr)
                  \<lparr>Gripper := GripperOpen, HeldPartID := [], HeldPart := None,
                   Phase_p := PhaseRetractPlace, PhaseStartedAt_p := wallclock env\<rparr>\<rparr>,
            st)"
proof -
  have push: "snd (Push_at a (Some p) st) = st" for p
    using full by (simp add: Push_at_def Push_def IsFull_def)
  show ?thesis
    using run rel held hid noerr late out
    by (simp add: P_Update_def P_updateRunning_def P_updateRelease_def Let_def P_SetPhase_def push)
qed

text \<open>
  Claim C3 (the code departs from it). When the release phase ends with the output buffer
  full, the picker is to keep the part and stay in \<open>Release\<close>. On the code,
  \<open>updateRelease\<close> ignores the result of \<open>Push\<close>: the picker of the fixture holds part
  0004 in phase \<open>Release\<close> at 26 s, the welder's input buffer holding its 3 parts; after
  the update at 27 s it holds nothing, is in \<open>RetractPlace\<close>, and the part is in neither
  buffer.
\<close>

theorem picker_release_loses_part:
  "picker_view (picker_ticks [1..<27] picker_fresh)
     = (StateRunning, PhaseRelease, ''PART-2026-01-12-0004'', True, [],
        [''PART-2026-01-12-0001'', ''PART-2026-01-12-0002'', ''PART-2026-01-12-0003''])
   \<and> picker_view (picker_ticks [1..<28] picker_fresh)
     = (StateRunning, PhaseRetractPlace, [], False, [],
        [''PART-2026-01-12-0001'', ''PART-2026-01-12-0002'', ''PART-2026-01-12-0003''])
   \<and> outputBuffer (pickerRobot fixture_line) = Some 1
   \<and> MaxCapacity (cells (snd picker_fresh) 1) = 3"
  by code_simp

subsection \<open>Picker robot: effective cycle time\<close>

lemma runner_picker_config:
  assumes "NewProductionLineRunner clock cfg = Some plr"
  shows "CycleTime (config (base_p (pickerRobot plr))) = go_quot (CycleTime_cfg cfg) 3"
    and "Runtime (config (base_p (pickerRobot plr))) = Some TheRuntimeConfig"
    and "runtimeConfig plr = NewRuntimeConfig cfg"
  using assms
  by (auto simp: NewProductionLineRunner_def runner_machines_def SetMachines_def Let_def
      NewPickerRobot_def NewBaseMachine_def base_machine_config_def SetInputBuffer_def
      SetOutputBuffer_def split: option.splits prod.splits if_splits)

lemma runner_picker_cycle_time:
  assumes "NewProductionLineRunner clock cfg = Some plr"
  shows "P_cycleTime rt (pickerRobot plr) = to_Duration (of_int (baseCycleTime rt) / cycleTimeScale rt)"
  using runner_picker_config(2)[OF assms]
  by (simp add: P_cycleTime_def GetEffectiveCycleTime_def RC_GetEffectiveCycleTime_def)

lemma fixture_line_built: "NewProductionLineRunner 0 fixture_config = Some fixture_line"
proof -
  have "NewProductionLineRunner 0 fixture_config \<noteq> None"
    by (simp add: NewProductionLineRunner_def runner_machines_def SetMachines_def Let_def
        NewFormingMachine_def NewSpotWelder_def alloc_PartBuffer_def NewPartBuffer_def
        DefaultFormingConfig_def DefaultSpotWelderConfig_def DefaultLineConfig_def
        NewProductionLineCoordinator_def split: option.splits)
  then show ?thesis by (auto simp: fixture_line_def)
qed

text \<open>
  Claim C5 (the code departs from it). The picker's cycle is to be a third of the base
  cycle. The runner stores \<open>CycleTime / 3\<close> (10 s of 30 s) in the picker's machine
  configuration, but \<open>GetEffectiveCycleTime\<close> reads the shared runtime configuration
  whenever it is set, and that holds the full base cycle: the picker's cycle time and
  phase boundaries come from 30 s, and from \<open>30 s / s\<close> at every scale \<open>s\<close>.
\<close>

theorem picker_cycle_time_not_a_third:
  "CycleTime (config (base_p (pickerRobot fixture_line))) = 10 * second
   \<and> baseCycleTime (runtimeConfig fixture_line) = 30 * second
   \<and> P_cycleTime (runtimeConfig fixture_line) (pickerRobot fixture_line) = 30 * second
   \<and> P_moveToPickupEnd (runtimeConfig fixture_line) (pickerRobot fixture_line) = 4500000000
   \<and> P_retractPlaceEnd (runtimeConfig fixture_line) (pickerRobot fixture_line) = 23100000000
   \<and> P_cycleTime ((runtimeConfig fixture_line)\<lparr>cycleTimeScale := s\<rparr>) (pickerRobot fixture_line)
       = to_Duration (of_int (30 * second) / s)"
proof -
  have closed: "CycleTime (config (base_p (pickerRobot fixture_line))) = 10 * second
   \<and> baseCycleTime (runtimeConfig fixture_line) = 30 * second
   \<and> P_cycleTime (runtimeConfig fixture_line) (pickerRobot fixture_line) = 30 * second
   \<and> P_moveToPickupEnd (runtimeConfig fixture_line) (pickerRobot fixture_line) = 4500000000
   \<and> P_retractPlaceEnd (runtimeConfig fixture_line) (pickerRobot fixture_line) = 23100000000"
    by code_simp
  have "P_cycleTime ((runtimeConfig fixture_line)\<lparr>cycleTimeScale := s\<rparr>) (pickerRobot fixture_line)
       = to_Duration (of_int (baseCycleTime (runtimeConfig fixture_line)) / s)"
    by (simp add: runner_picker_cycle_time[OF fixture_line_built])
  with closed show ?thesis by simp
qed

subsection \<open>Line setup: which buffer the picker feeds\<close>

lemma SetMachines_fresh_output:
  assumes "SetMachines (Some ()) (Some ()) (Some ()) plr = Some plr'"
  shows "outputBuffer (pickerRobot plr') = Some (next_free (buffers plr))"
    and "spotWelder plr' = spotWelder plr"
    and "inputBuffer (pickerRobot plr') = Some (GetOutputBuffer (formingMachine plr))"
  using assms
  by (auto simp: SetMachines_def Let_def alloc_PartBuffer_def SetOutputBuffer_def SetInputBuffer_def
      split: option.splits)

text \<open>
  Claim C1 (the code departs from it for \<open>SetMachines\<close>). After \<open>SetMachines\<close> the
  picker's input buffer is the forming machine's output buffer (capacity 5), but its
  output buffer is a buffer of its own (capacity 3, address 2), not the welder's input
  buffer (capacity 3, address 1): a part pushed there never shows in the welder's input.
  Only the runner's later \<open>SetOutputBuffer\<close> call makes the two the same buffer.
\<close>

theorem set_machines_leaves_welder_unfed:
  "inputBuffer (pickerRobot fixture_unwired) = Some (GetOutputBuffer (formingMachine fixture_unwired))
   \<and> MaxCapacity (cells (buffers fixture_unwired) (GetOutputBuffer (formingMachine fixture_unwired))) = 5
   \<and> outputBuffer (pickerRobot fixture_unwired) = Some 2
   \<and> GetInputBuffer (spotWelder fixture_unwired) = 1
   \<and> MaxCapacity (cells (buffers fixture_unwired) 2) = 3
   \<and> MaxCapacity (cells (buffers fixture_unwired) 1) = 3
   \<and> fst (Push_at 2 (Some (fixture_part ''PART-2026-01-12-0001'')) (buffers fixture_unwired)) = True
   \<and> Count (cells (snd (Push_at 2 (Some (fixture_part ''PART-2026-01-12-0001'')) (buffers fixture_unwired)))
              (GetInputBuffer (spotWelder fixture_unwired))) = 0
   \<and> outputBuffer (pickerRobot fixture_line) = Some (GetInputBuffer (spotWelder fixture_line))
   \<and> inputBuffer (pickerRobot fixture_line) = Some (GetOutputBuffer (formingMachine fixture_line))
   \<and> Count (cells (snd (Push_at 1 (Some (fixture_part ''PART-2026-01-12-0001'')) (buffers fixture_line)))
              (GetInputBuffer (spotWelder fixture_line))) = 1"
  by code_simp

subsection \<open>Coordinator: the line state\<close>

lemma lineState_note_error [simp]: "lineState (note_error p bm n c) = lineState c"
  by (simp add: note_error_def split: option.splits)

lemma lineState_updateErrorTracking [simp]:
  "lineState (coordinator (updateErrorTracking plr)) = lineState (coordinator plr)"
  by (simp add: updateErrorTracking_def Let_def)

lemma lineState_updateCounters [simp]:
  "lineState (coordinator (updateCounters plr)) = lineState (coordinator plr)"
  by (simp add: updateCounters_def Let_def split: prod.splits)

lemma coordinator_update_machines [simp]:
  "coordinator (update_machines envF envP envW now b plr) = coordinator plr"
  by (simp add: update_machines_def Let_def split: prod.splits)

lemma lineState_track_time [simp]: "lineState (track_time e c) = lineState c"
  by (simp add: track_time_def)

lemma hasError_lastUpdate [simp]:
  "hasError (plr\<lparr>coordinator := (coordinator plr)\<lparr>lastUpdate := now\<rparr>\<rparr>) = hasError plr"
  by (simp add: hasError_def)

lemma lineState_C_Update:
  "lineState (coordinator (C_Update envF envP envW now b plr)) =
     (if hasError plr then LineStateError
      else if lineState (coordinator plr) = LineStateError then LineStateRunning
      else lineState (coordinator plr))"
  by (simp add: C_Update_def Let_def coordinatePartFlow_def updateLineState_def)

text \<open>
  Claim C6, amended. Every \<open>Update\<close> sets the line state from the machine states as they
  are when it begins, before the machines advance: the line state after the update is
  \<open>Error\<close> exactly when some machine was then in UnplannedStop; when none was, a line
  state \<open>Error\<close> becomes \<open>Running\<close> and any other line state is kept.
\<close>

theorem line_state_follows_errors:
  "(hasError plr \<longleftrightarrow> lineState (coordinator (C_Update envF envP envW now b plr)) = LineStateError)
   \<and> (\<not> hasError plr \<and> lineState (coordinator plr) = LineStateError \<longrightarrow>
        lineState (coordinator (C_Update envF envP envW now b plr)) = LineStateRunning)
   \<and> (\<not> hasError plr \<and> lineState (coordinator plr) \<noteq> LineStateError \<longrightarrow>
        lineState (coordinator (C_Update envF envP envW now b plr)) = lineState (coordinator plr))"
  by (simp add: lineState_C_Update)

lemma line_obs:
  "line_view line_at_error = (StateUnplannedStop, StateIdle, StateIdle, LineStateRunning)"
  "line_view line_at_recovery = (StateIdle, StateIdle, StateIdle, LineStateError)"
  "line_view line_never_started = (StateSetup, StateIdle, StateIdle, LineStateStopped)"
  "line_view line_at_break = (StatePlannedStop, StateIdle, StateIdle, LineStateRunning)"
  "c_formingMachine (coordinator line_at_error) = Some ()"
  by code_simp+

text \<open>
  The claim as stated fails: after the update in which the forming machine fails, a
  machine is in UnplannedStop and the line is \<open>Running\<close>; after the update in which it
  recovers, no machine is in UnplannedStop and the line is \<open>Error\<close>; a line that was never
  started stays \<open>Stopped\<close> with its machines in Setup and Idle; and during a break, with
  the forming machine in PlannedStop and the others Idle, the line is \<open>Running\<close>.
\<close>

theorem line_state_follows_errors_counterexample:
  "line_view line_at_error = (StateUnplannedStop, StateIdle, StateIdle, LineStateRunning)
   \<and> line_view line_at_recovery = (StateIdle, StateIdle, StateIdle, LineStateError)
   \<and> line_view line_never_started = (StateSetup, StateIdle, StateIdle, LineStateStopped)
   \<and> line_view line_at_break = (StatePlannedStop, StateIdle, StateIdle, LineStateRunning)"
  by (simp add: line_obs)

theorem line_state_follows_errors_witness:
  "hasError line_at_error
   \<and> lineState (coordinator (C_Update (fixture_env (11 * second)) (fixture_env (11 * second))
        (fixture_env (11 * second)) (11 * second) False line_at_error)) = LineStateError
   \<and> \<not> hasError line_at_recovery
   \<and> lineState (coordinator line_at_recovery) = LineStateError
   \<and> lineState (coordinator (C_Update (fixture_env (27 * second)) (fixture_env (27 * second))
        (fixture_env (27 * second)) (27 * second) False line_at_recovery)) = LineStateRunning"
proof -
  have e: "hasError line_at_error"
    using line_obs(1) line_obs(5) by (simp add: line_view_def hasError_def)
  have r: "\<not> hasError line_at_recovery" "lineState (coordinator line_at_recovery) = LineStateError"
    using line_obs(2) by (simp_all add: line_view_def hasError_def)
  show ?thesis
    using e r
      line_state_follows_errors[of line_at_error "fixture_env (11 * second)"
        "fixture_env (11 * second)" "fixture_env (11 * second)" "11 * second" False]
      line_state_follows_errors[of line_at_recovery "fixture_env (27 * second)"
        "fixture_env (27 * second)" "fixture_env (27 * second)" "27 * second" False]
    by blast
qed

end
